theory Spec2Isabelle
  imports Complex_Main "HOL-Library.Word" "HOL-Library.List_Lexorder" "HOL-Library.AList"
    "HOL-Library.Multiset"
begin

section \<open>Strings and JSON values\<close>

text \<open>
  A JavaScript string is a sequence of 16-bit code units; \<open>===\<close> compares the sequences
  and \<open><\<close> (the order used by \<open>Array.prototype.sort\<close> without a comparator) is the
  lexicographic order on code units, a proper prefix being smaller. That is the order of
  \<open>HOL-Library.List_Lexorder\<close> over the unsigned order of \<open>16 word\<close>.
  \<open>utf16\<close> writes the ASCII literals of the source.
\<close>

type_synonym jsstring = "16 word list"

definition utf16 :: "string \<Rightarrow> jsstring" where
  "utf16 s = map (\<lambda>c. of_char c) s"

text \<open>
  The values \<open>JSON.parse\<close> returns. An object lists its own properties, each key once.
  The value of a number is never read by the program.
\<close>

datatype json =
    JNull
  | JBool bool
  | JNum real
  | JStr jsstring
  | JArr "json list"
  | JObj "(jsstring \<times> json) list"

datatype jstype = TUndefined | TObject | TBoolean | TNumber | TString

text \<open>\<open>typeof\<close>; \<open>None\<close> is \<open>undefined\<close>, the value of a property that is absent.\<close>

fun typeof :: "json option \<Rightarrow> jstype" where
  "typeof None = TUndefined"
| "typeof (Some JNull) = TObject"
| "typeof (Some (JBool b)) = TBoolean"
| "typeof (Some (JNum n)) = TNumber"
| "typeof (Some (JStr s)) = TString"
| "typeof (Some (JArr xs)) = TObject"
| "typeof (Some (JObj ps)) = TObject"

text \<open>
  Property access \<open>value.k\<close> for the four names the guards read (\<open>type\<close>,
  \<open>product_id\<close>, \<open>symbol\<close>, \<open>price\<close>): an own property of an object, and
  \<open>undefined\<close> on an array, whose own properties are its indices and \<open>length\<close>.
  The guards reach it only behind \<open>typeof value === 'object' && value !== null\<close>.
\<close>

fun getProperty :: "json \<Rightarrow> jsstring \<Rightarrow> json option" where
  "getProperty (JObj ps) k = map_of ps k"
| "getProperty v k = None"

text \<open>A property the type guard has shown to be a string.\<close>

fun the_string :: "json option \<Rightarrow> jsstring" where
  "the_string (Some (JStr s)) = s"

datatype error =
    SyntaxError
  | Error jsstring
  | LibraryError nat

text \<open>
  \<open>SyntaxError\<close> is what \<open>JSON.parse\<close> throws, \<open>Error m\<close> is \<open>new Error(m)\<close>, and
  \<open>LibraryError n\<close> stands for the error object that the websocket or https library
  hands to an \<open>'error'\<close> or \<open>'connectFailed'\<close> event.
\<close>

section \<open>Promises\<close>

text \<open>A promise settles once: \<open>resolve\<close> and \<open>reject\<close> on a settled promise do nothing.\<close>

datatype 'a promise = Pending | Fulfilled 'a | Rejected error

fun resolve :: "'a \<Rightarrow> 'a promise \<Rightarrow> 'a promise" where
  "resolve v Pending = Fulfilled v"
| "resolve v p = p"

fun reject :: "error \<Rightarrow> 'a promise \<Rightarrow> 'a promise" where
  "reject e Pending = Rejected e"
| "reject e p = p"

section \<open>The object \<open>tickerData\<close>\<close>

text \<open>
  \<open>tickerData\<close> starts as \<open>{}\<close>. The model keeps its own properties in creation order
  and its prototype: \<open>None\<close> is \<open>Object.prototype\<close>, \<open>Some d\<close> is the parsed frame \<open>d\<close>,
  whose own prototype is \<open>Object.prototype\<close>.

  \<open>tickerData[k] = v\<close> creates the own property \<open>k\<close> or overwrites it in place, with
  one exception: the key \<open>__proto__\<close>, when \<open>tickerData\<close> has no own property of that
  name and neither has its prototype if that is a frame. The assignment then reaches the
  accessor \<open>__proto__\<close> of \<open>Object.prototype\<close>, whose setter makes the assigned object
  the prototype of \<open>tickerData\<close> and creates no own property.
\<close>

definition runsSetter :: "json option \<Rightarrow> (jsstring \<times> 'v) list \<Rightarrow> jsstring \<Rightarrow> bool" where
  "runsSetter proto obj k =
     (k = utf16 ''__proto__''
      \<and> map_of obj k = None
      \<and> (case proto of None \<Rightarrow> True | Some d \<Rightarrow> getProperty d k = None))"

definition assign ::
  "json option \<Rightarrow> (jsstring \<times> 'v) list \<Rightarrow> jsstring \<Rightarrow> 'v \<Rightarrow> (jsstring \<times> 'v) list" where
  "assign proto obj k v = (if runsSetter proto obj k then obj else AList.update k v obj)"

definition assignPrototype ::
  "json option \<Rightarrow> (jsstring \<times> 'v) list \<Rightarrow> jsstring \<Rightarrow> json \<Rightarrow> json option" where
  "assignPrototype proto obj k data = (if runsSetter proto obj k then Some data else proto)"

text \<open>
  \<open>Object.keys\<close> and \<open>Object.values\<close> enumerate the own properties: first the keys that
  are array indices (canonical decimal numerals below \<open>2^32 - 1\<close>) in ascending numeric
  order, then the other keys in creation order.
\<close>

definition isDigit :: "16 word \<Rightarrow> bool" where
  "isDigit c = (0x30 \<le> c \<and> c \<le> 0x39)"

definition decimal :: "jsstring \<Rightarrow> nat" where
  "decimal k = foldl (\<lambda>n c. 10 * n + (unat c - 48)) 0 k"

definition arrayIndex :: "jsstring \<Rightarrow> nat option" where
  "arrayIndex k =
     (if k \<noteq> [] \<and> list_all isDigit k \<and> (length k = 1 \<or> hd k \<noteq> 0x30) \<and> decimal k < 2 ^ 32 - 1
      then Some (decimal k) else None)"

definition ownProperties :: "(jsstring \<times> 'v) list \<Rightarrow> (jsstring \<times> 'v) list" where
  "ownProperties obj =
     sort_key (\<lambda>p. case arrayIndex (fst p) of Some n \<Rightarrow> n | None \<Rightarrow> 0)
       (filter (\<lambda>p. arrayIndex (fst p) \<noteq> None) obj)
     @ filter (\<lambda>p. arrayIndex (fst p) = None) obj"

definition Object_keys :: "(jsstring \<times> 'v) list \<Rightarrow> jsstring list" where
  "Object_keys obj = map fst (ownProperties obj)"

definition Object_values :: "(jsstring \<times> 'v) list \<Rightarrow> 'v list" where
  "Object_values obj = map snd (ownProperties obj)"

section \<open>The streaming collector: \<open>getCoinbasePriceData\<close>\<close>

text \<open>
  The interface \<open>CoinbaseTickerData\<close>; its field \<open>type\<close> has the single value
  \<open>'ticker'\<close> and is left out.
\<close>

record CoinbaseTickerData =
  product_id :: jsstring
  price :: jsstring

definition isCoinbaseTickerData :: "json \<Rightarrow> bool" where
  "isCoinbaseTickerData v =
     (typeof (Some v) = TObject
      \<and> v \<noteq> JNull
      \<and> getProperty v (utf16 ''type'') = Some (JStr (utf16 ''ticker''))
      \<and> typeof (getProperty v (utf16 ''product_id'')) = TString
      \<and> typeof (getProperty v (utf16 ''price'')) = TString)"

text \<open>The value narrowed by the guard, read at the type \<open>CoinbaseTickerData\<close>.\<close>

definition asCoinbaseTickerData :: "json \<Rightarrow> CoinbaseTickerData" where
  "asCoinbaseTickerData v =
     \<lparr>product_id = the_string (getProperty v (utf16 ''product_id'')),
      price = the_string (getProperty v (utf16 ''price''))\<rparr>"

text \<open>
  A message of the websocket library is a text message or a binary one. A text message
  is represented by what \<open>JSON.parse(message.utf8Data)\<close> does on its text: \<open>Utf8 None\<close>
  when it throws \<open>SyntaxError\<close>, \<open>Utf8 (Some v)\<close> when it returns \<open>v\<close>.
\<close>

datatype message = Utf8 "json option" | Binary

text \<open>
  The state of one call: the own properties of the object \<open>tickerData\<close> and its
  prototype, whether the \<open>'connect'\<close> callback
  has run (so that the connection exists, with its two listeners), the values whose
  \<open>JSON.stringify\<close> text was sent, the number of calls of \<open>connection.close()\<close>, and the
  promise the call returned.
\<close>

record collector =
  tickerData :: "(jsstring \<times> CoinbaseTickerData) list"
  prototype :: "json option"
  subscribed :: bool
  sent :: "json list"
  closeCalls :: nat
  returned :: "CoinbaseTickerData list promise"

definition getCoinbasePriceData :: collector where
  "getCoinbasePriceData =
     \<lparr>tickerData = [], prototype = None, subscribed = False, sent = [], closeCalls = 0,
      returned = Pending\<rparr>"

definition subscribeConfig :: "jsstring list \<Rightarrow> json" where
  "subscribeConfig productIds =
     JObj [(utf16 ''type'', JStr (utf16 ''subscribe'')),
           (utf16 ''product_ids'', JArr (map JStr productIds)),
           (utf16 ''channels'', JArr [JStr (utf16 ''ticker'')])]"

definition onConnect :: "jsstring list \<Rightarrow> collector \<Rightarrow> collector" where
  "onConnect productIds st =
     st\<lparr>subscribed := True, sent := sent st @ [subscribeConfig productIds]\<rparr>"

definition onError :: "collector \<Rightarrow> error \<Rightarrow> collector" where
  "onError st e = st\<lparr>closeCalls := closeCalls st + 1, returned := reject e (returned st)\<rparr>"

text \<open>
  The \<open>'message'\<close> listener. \<open>Inl e\<close> is the exception \<open>e\<close> leaving the listener: nothing
  in the program catches it.
\<close>

fun onMessage :: "jsstring list \<Rightarrow> collector \<Rightarrow> message \<Rightarrow> error + collector" where
  "onMessage productIds st Binary = Inr st"
| "onMessage productIds st (Utf8 None) = Inl SyntaxError"
| "onMessage productIds st (Utf8 (Some data)) =
     (if isCoinbaseTickerData data then
        let d = asCoinbaseTickerData data;
            st1 = st\<lparr>tickerData := assign (prototype st) (tickerData st) (product_id d) d,
                     prototype :=
                       assignPrototype (prototype st) (tickerData st) (product_id d) data\<rparr>
        in if length (Object_keys (tickerData st1)) = length productIds
           then Inr (st1\<lparr>closeCalls := closeCalls st1 + 1,
                         returned := resolve (Object_values (tickerData st1)) (returned st1)\<rparr>)
           else Inr st1
      else Inr st)"

text \<open>
  What the library can deliver: on the client \<open>'connect'\<close> or \<open>'connectFailed'\<close> (which
  has no listener), on the connection \<open>'error'\<close> and \<open>'message'\<close>. Before \<open>'connect'\<close>
  there is no connection, hence nothing that its events could reach.
\<close>

datatype coinbase_event =
    Connect
  | ConnectFailed error
  | ConnectionError error
  | Message message

fun coinbaseEvent :: "jsstring list \<Rightarrow> collector \<Rightarrow> coinbase_event \<Rightarrow> error + collector" where
  "coinbaseEvent productIds st Connect = Inr (onConnect productIds st)"
| "coinbaseEvent productIds st (ConnectFailed e) = Inr st"
| "coinbaseEvent productIds st (ConnectionError e) =
     (if subscribed st then Inr (onError st e) else Inr st)"
| "coinbaseEvent productIds st (Message m) =
     (if subscribed st then onMessage productIds st m else Inr st)"

fun coinbaseRun :: "jsstring list \<Rightarrow> collector \<Rightarrow> coinbase_event list \<Rightarrow> error + collector" where
  "coinbaseRun productIds st [] = Inr st"
| "coinbaseRun productIds st (ev # evs) =
     (case coinbaseEvent productIds st ev of
        Inl e \<Rightarrow> Inl e
      | Inr st' \<Rightarrow> coinbaseRun productIds st' evs)"

section \<open>The snapshot fetcher: \<open>getBinancePriceData\<close>\<close>

record BinanceTickerData =
  symbol :: jsstring
  price :: jsstring

definition isBinanceTickerData :: "json \<Rightarrow> bool" where
  "isBinanceTickerData v =
     (typeof (Some v) = TObject
      \<and> v \<noteq> JNull
      \<and> typeof (getProperty v (utf16 ''symbol'')) = TString
      \<and> typeof (getProperty v (utf16 ''price'')) = TString)"

definition isNotNull :: "'a option \<Rightarrow> bool" where
  "isNotNull v = (v \<noteq> None)"

fun Array_isArray :: "json \<Rightarrow> bool" where
  "Array_isArray (JArr xs) = True"
| "Array_isArray v = False"

fun elements :: "json \<Rightarrow> json list" where
  "elements (JArr xs) = xs"
| "elements v = []"

text \<open>The callback of \<open>json.map\<close>: \<open>None\<close> is its \<open>null\<close>.\<close>

definition renamed :: "(jsstring \<times> jsstring) list \<Rightarrow> json \<Rightarrow> BinanceTickerData option" where
  "renamed productIds v =
     (let symbol = the_string (getProperty v (utf16 ''symbol''));
          price = the_string (getProperty v (utf16 ''price''))
      in case List.find (\<lambda>x. fst x = symbol) productIds of
           Some idPair \<Rightarrow> Some \<lparr>symbol = snd idPair, price = price\<rparr>
         | None \<Rightarrow> None)"

text \<open>
  The \<open>'end'\<close> listener of the response, given what \<open>JSON.parse(body)\<close> does on the
  accumulated body (\<open>None\<close>: it throws \<open>SyntaxError\<close>). \<open>Inl e\<close> is the exception \<open>e\<close>
  leaving the listener.
\<close>

fun onEnd :: "(jsstring \<times> jsstring) list \<Rightarrow> BinanceTickerData list promise \<Rightarrow> json option
    \<Rightarrow> error + BinanceTickerData list promise" where
  "onEnd productIds p None = Inl SyntaxError"
| "onEnd productIds p (Some json) =
     (if Array_isArray json \<and> list_all isBinanceTickerData (elements json)
      then Inr (resolve (map the (filter isNotNull (map (renamed productIds) (elements json)))) p)
      else Inr (reject (Error (utf16 ''Invalid JSON response data'')) p))"

text \<open>
  What the https library can deliver: the end of the response, or an \<open>'error'\<close> event on
  the request. The request has no \<open>'error'\<close> listener, and an \<open>'error'\<close> event without a
  listener throws its error.
\<close>

datatype binance_event = End "json option" | RequestError error

fun binanceEvent :: "(jsstring \<times> jsstring) list \<Rightarrow> BinanceTickerData list promise \<Rightarrow> binance_event
    \<Rightarrow> error + BinanceTickerData list promise" where
  "binanceEvent productIds p (End parsed) = onEnd productIds p parsed"
| "binanceEvent productIds p (RequestError e) = Inl e"

section \<open>The aggregator: \<open>printExchangeRates\<close>\<close>

definition newline :: "16 word" where
  "newline = 0x0A"

definition binanceLine :: "BinanceTickerData \<Rightarrow> jsstring" where
  "binanceLine q = utf16 ''Binance,'' @ symbol q @ utf16 '','' @ BinanceTickerData.price q @ [newline]"

definition coinbaseLine :: "CoinbaseTickerData \<Rightarrow> jsstring" where
  "coinbaseLine q =
     utf16 ''Coinbase,'' @ product_id q @ utf16 '','' @ CoinbaseTickerData.price q @ [newline]"

text \<open>The calls of \<open>stdout.write\<close> after the \<open>await\<close>, in order.\<close>

definition written :: "CoinbaseTickerData list \<Rightarrow> BinanceTickerData list \<Rightarrow> jsstring list" where
  "written coinbaseResults binanceResults =
     (utf16 ''Exchange,Market,Price'' @ [newline])
     # sort (map binanceLine binanceResults @ map coinbaseLine coinbaseResults)"

text \<open>
  \<open>Promise.all\<close> of the two promises. After each event at most one of them has just
  settled, so the first rejection in time is the one seen here.
\<close>

fun Promise_all :: "'a promise \<Rightarrow> 'b promise \<Rightarrow> ('a \<times> 'b) promise" where
  "Promise_all (Rejected e) q = Rejected e"
| "Promise_all (Fulfilled a) (Rejected e) = Rejected e"
| "Promise_all Pending (Rejected e) = Rejected e"
| "Promise_all (Fulfilled a) (Fulfilled b) = Fulfilled (a, b)"
| "Promise_all (Fulfilled a) Pending = Pending"
| "Promise_all Pending (Fulfilled b) = Pending"
| "Promise_all Pending Pending = Pending"

text \<open>
  The whole process: the two calls, the promise of \<open>printExchangeRates()\<close>, what was
  written to \<open>stdout\<close>, and what \<open>console.error\<close> printed.
\<close>

record program =
  coinbase :: collector
  binance :: "BinanceTickerData list promise"
  finished :: "unit promise"
  stdout :: "jsstring list"
  console :: "error list"

definition printExchangeRates :: program where
  "printExchangeRates =
     \<lparr>coinbase = getCoinbasePriceData, binance = Pending, finished = Pending,
      stdout = [], console = []\<rparr>"

text \<open>
  The continuation of \<open>printExchangeRates\<close> after its \<open>await\<close>, and the \<open>catch\<close> of the
  last line: it runs once, as soon as \<open>Promise.all\<close> has settled.
\<close>

definition resume :: "program \<Rightarrow> program" where
  "resume st =
     (if finished st \<noteq> Pending then st
      else case Promise_all (returned (coinbase st)) (binance st) of
             Pending \<Rightarrow> st
           | Rejected e \<Rightarrow> st\<lparr>finished := Rejected e, console := console st @ [e]\<rparr>
           | Fulfilled r \<Rightarrow>
               st\<lparr>stdout := stdout st @ written (fst r) (snd r), finished := Fulfilled ()\<rparr>)"

datatype event = Coinbase coinbase_event | Binance binance_event

text \<open>
  One turn of the event loop: the listener of the event, then the continuation.
  \<open>Inl e\<close> is an uncaught exception, which ends the process.
\<close>

fun step :: "jsstring list \<Rightarrow> (jsstring \<times> jsstring) list \<Rightarrow> program \<Rightarrow> event \<Rightarrow> error + program" where
  "step productIds idPairs st (Coinbase ev) =
     (case coinbaseEvent productIds (coinbase st) ev of
        Inl e \<Rightarrow> Inl e
      | Inr c \<Rightarrow> Inr (resume (st\<lparr>coinbase := c\<rparr>)))"
| "step productIds idPairs st (Binance ev) =
     (case binanceEvent idPairs (binance st) ev of
        Inl e \<Rightarrow> Inl e
      | Inr b \<Rightarrow> Inr (resume (st\<lparr>binance := b\<rparr>)))"

fun run :: "jsstring list \<Rightarrow> (jsstring \<times> jsstring) list \<Rightarrow> program \<Rightarrow> event list \<Rightarrow> error + program" where
  "run productIds idPairs st [] = Inr st"
| "run productIds idPairs st (ev # evs) =
     (case step productIds idPairs st ev of
        Inl e \<Rightarrow> Inl e
      | Inr st' \<Rightarrow> run productIds idPairs st' evs)"

text \<open>The two argument lists written in \<open>printExchangeRates\<close>.\<close>

definition coinbaseProductIds :: "jsstring list" where
  "coinbaseProductIds = [utf16 ''XTZ-GBP'', utf16 ''LINK-GBP'', utf16 ''BTC-GBP'']"

definition binanceProductIds :: "(jsstring \<times> jsstring) list" where
  "binanceProductIds =
     [(utf16 ''ADABTC'', utf16 ''ADA-BTC''), (utf16 ''DOTBTC'', utf16 ''DOT-BTC'')]"

text \<open>
  The exit status of the process: \<open>1\<close> after an uncaught exception; otherwise the value of
  \<open>process.exitCode\<close>, which the program never assigns, hence \<open>0\<close>.
\<close>

fun exitStatus :: "error + program \<Rightarrow> nat" where
  "exitStatus (Inl e) = 1"
| "exitStatus (Inr st) = 0"

section \<open>Notions used to state the properties\<close>

text \<open>
  The quote a message carries when it is a valid ticker frame, the quotes of a sequence
  of messages in order of arrival, and the last quote received for a product id.
\<close>

definition ticker :: "message \<Rightarrow> CoinbaseTickerData option" where
  "ticker m =
     (case m of
        Utf8 (Some v) \<Rightarrow> if isCoinbaseTickerData v then Some (asCoinbaseTickerData v) else None
      | Utf8 None \<Rightarrow> None
      | Binary \<Rightarrow> None)"

definition tickers :: "message list \<Rightarrow> CoinbaseTickerData list" where
  "tickers ms = List.map_filter ticker ms"

definition lastQuote :: "message list \<Rightarrow> jsstring \<Rightarrow> CoinbaseTickerData option" where
  "lastQuote ms s = List.find (\<lambda>q. product_id q = s) (rev (tickers ms))"

text \<open>
  The events at which an exception leaves a listener or finds none: a text frame or a
  response body that is not JSON, and an \<open>'error'\<close> event on the request.
\<close>

fun fatal :: "event \<Rightarrow> bool" where
  "fatal (Coinbase (Message (Utf8 None))) = True"
| "fatal (Binance (End None)) = True"
| "fatal (Binance (RequestError e)) = True"
| "fatal ev = False"

text \<open>
  What holds after every turn of the event loop: a resolved collector holds as many
  quotes as product ids were requested, and \<open>printExchangeRates()\<close> is pending with
  nothing written and nothing logged, or rejected with the logged error of a rejected
  call and nothing written, or fulfilled with both calls fulfilled and their lines
  written.
\<close>

definition invariant :: "jsstring list \<Rightarrow> program \<Rightarrow> bool" where
  "invariant productIds p =
     ((case returned (coinbase p) of
         Fulfilled qs \<Rightarrow> length qs = length productIds
       | Pending \<Rightarrow> True
       | Rejected e \<Rightarrow> True)
      \<and> (case finished p of
            Pending \<Rightarrow>
              stdout p = [] \<and> console p = []
              \<and> Promise_all (returned (coinbase p)) (binance p) = Pending
          | Rejected e \<Rightarrow>
              stdout p = [] \<and> console p = [e]
              \<and> (returned (coinbase p) = Rejected e \<or> binance p = Rejected e)
          | Fulfilled u \<Rightarrow>
              console p = []
              \<and> (case Promise_all (returned (coinbase p)) (binance p) of
                    Fulfilled r \<Rightarrow> stdout p = written (fst r) (snd r)
                  | Pending \<Rightarrow> False
                  | Rejected e \<Rightarrow> False)))"

section \<open>Promises settle once\<close>

lemma binanceEvent_settled:
  "p \<noteq> Pending \<Longrightarrow> binanceEvent idPairs p ev = Inr p' \<Longrightarrow> p' = p"
  by (cases ev; cases p) (auto elim!: onEnd.elims split: if_splits)

lemma length_ownProperties: "length (ownProperties obj) = length obj"
proof -
  have "length (filter (\<lambda>p. arrayIndex (fst p) \<noteq> None) obj)
      + length (filter (\<lambda>p. \<not> arrayIndex (fst p) \<noteq> None) obj) = length obj"
    by (rule sum_length_filter_compl)
  then show ?thesis by (simp add: ownProperties_def)
qed

lemma length_Object_keys: "length (Object_keys obj) = length obj"
  by (simp add: Object_keys_def length_ownProperties)

lemma length_Object_values: "length (Object_values obj) = length obj"
  by (simp add: Object_values_def length_ownProperties)

lemma onMessage_returned:
  assumes "onMessage productIds st m = Inr st'"
  shows "returned st' = returned st
       \<or> (returned st = Pending
          \<and> (\<exists>qs. returned st' = Fulfilled qs \<and> length qs = length productIds))"
proof (cases m)
  case Binary
  with assms show ?thesis by simp
next
  case (Utf8 parsed)
  show ?thesis
  proof (cases parsed)
    case None
    with Utf8 assms show ?thesis by simp
  next
    case (Some data)
    with Utf8 assms show ?thesis
      by (cases "returned st")
         (auto simp: Let_def length_Object_values length_Object_keys split: if_splits)
  qed
qed

lemma coinbaseEvent_returned:
  assumes "coinbaseEvent productIds st ev = Inr st'"
  shows "returned st' = returned st
       \<or> (returned st = Pending
          \<and> ((\<exists>qs. returned st' = Fulfilled qs \<and> length qs = length productIds)
             \<or> (\<exists>e. returned st' = Rejected e)))"
proof (cases ev)
  case (Message m)
  with assms onMessage_returned [of productIds st m st'] show ?thesis
    by (auto split: if_splits)
next
  case (ConnectionError e)
  with assms show ?thesis
    by (cases "returned st") (auto simp: onError_def split: if_splits)
qed (use assms in \<open>auto simp: onConnect_def\<close>)

lemma coinbase_resume: "coinbase (resume p) = coinbase p"
  by (simp add: resume_def split: promise.splits)

lemma binance_resume: "binance (resume p) = binance p"
  by (simp add: resume_def split: promise.splits)

lemma step_coinbase_rejected:
  assumes "returned (coinbase p) = Rejected e" and "step productIds idPairs p ev = Inr p'"
  shows "returned (coinbase p') = Rejected e"
proof (cases ev)
  case (Coinbase cev)
  with assms(2) obtain c where c: "coinbaseEvent productIds (coinbase p) cev = Inr c"
    and p': "p' = resume (p\<lparr>coinbase := c\<rparr>)"
    by (auto split: sum.splits)
  from coinbaseEvent_returned [OF c] assms(1) have "returned c = Rejected e" by auto
  then show ?thesis by (simp add: p' coinbase_resume)
next
  case (Binance bev)
  with assms show ?thesis by (auto split: sum.splits simp: coinbase_resume)
qed

lemma run_coinbase_rejected:
  "returned (coinbase p) = Rejected e \<Longrightarrow> run productIds idPairs p evs = Inr p'
   \<Longrightarrow> returned (coinbase p') = Rejected e"
  by (induction evs arbitrary: p) (auto split: sum.splits dest: step_coinbase_rejected)

lemma step_binance_rejected:
  assumes "binance p = Rejected e" and "step productIds idPairs p ev = Inr p'"
  shows "binance p' = Rejected e"
proof (cases ev)
  case (Coinbase cev)
  with assms show ?thesis by (auto split: sum.splits simp: binance_resume)
next
  case (Binance bev)
  with assms(2) obtain b where b: "binanceEvent idPairs (binance p) bev = Inr b"
    and p': "p' = resume (p\<lparr>binance := b\<rparr>)"
    by (auto split: sum.splits)
  from binanceEvent_settled [OF _ b] assms(1) have "b = Rejected e" by simp
  then show ?thesis by (simp add: p' binance_resume)
qed

lemma run_binance_rejected:
  "binance p = Rejected e \<Longrightarrow> run productIds idPairs p evs = Inr p'
   \<Longrightarrow> binance p' = Rejected e"
  by (induction evs arbitrary: p) (auto split: sum.splits dest: step_binance_rejected)

section \<open>The invariant holds in every state the process reaches\<close>

lemma step_invariant:
  assumes "invariant productIds p" and "step productIds idPairs p ev = Inr p'"
  shows "invariant productIds p'"
proof (cases ev)
  case (Coinbase cev)
  with assms(2) obtain c where c: "coinbaseEvent productIds (coinbase p) cev = Inr c"
    and p': "p' = resume (p\<lparr>coinbase := c\<rparr>)"
    by (auto split: sum.splits)
  from coinbaseEvent_returned [OF c] assms(1) show ?thesis
    unfolding p' invariant_def resume_def
    by (cases "finished p"; cases "binance p"; cases "returned (coinbase p)"; cases "returned c")
       auto
next
  case (Binance bev)
  with assms(2) obtain b where b: "binanceEvent idPairs (binance p) bev = Inr b"
    and p': "p' = resume (p\<lparr>binance := b\<rparr>)"
    by (auto split: sum.splits)
  from binanceEvent_settled [OF _ b] assms(1) show ?thesis
    unfolding p' invariant_def resume_def
    by (cases "finished p"; cases "binance p"; cases "returned (coinbase p)"; cases b)
       auto
qed

lemma run_invariant:
  "invariant productIds p \<Longrightarrow> run productIds idPairs p evs = Inr p'
   \<Longrightarrow> invariant productIds p'"
  by (induction evs arbitrary: p) (auto split: sum.splits dest: step_invariant)

lemma invariant_initial: "invariant productIds printExchangeRates"
  by (simp add: invariant_def printExchangeRates_def getCoinbasePriceData_def)

lemma reachable_invariant:
  "run productIds idPairs printExchangeRates evs = Inr p \<Longrightarrow> invariant productIds p"
  using run_invariant [OF invariant_initial] .


section \<open>The object \<open>tickerData\<close> after a sequence of quotes\<close>

lemma mset_ownProperties: "mset (ownProperties obj) = mset obj"
  by (simp add: ownProperties_def)

lemma set_ownProperties: "set (ownProperties obj) = set obj"
  using mset_ownProperties [of obj] by (metis set_mset_mset)

lemma update_entries:
  "p \<in> set (AList.update k v al) \<Longrightarrow> p = (k, v) \<or> p \<in> set al"
  by (induction al) (auto split: if_splits)

lemma tickers_append: "tickers (ms @ ms') = tickers ms @ tickers ms'"
  by (simp add: tickers_def List.map_filter_def)

lemma tickers_single:
  "tickers [m] = (case ticker m of None \<Rightarrow> [] | Some q \<Rightarrow> [q])"
  by (simp add: tickers_def split: option.splits)

lemma assign_other_key:
  "k \<noteq> utf16 ''__proto__'' \<Longrightarrow> assign proto obj k v = AList.update k v obj"
  by (simp add: assign_def runsSetter_def)

lemma assignPrototype_other_key:
  "k \<noteq> utf16 ''__proto__'' \<Longrightarrow> assignPrototype proto obj k data = proto"
  by (simp add: assignPrototype_def runsSetter_def)

lemma collected_keys:
  "distinct (map fst (foldl (\<lambda>td q. AList.update (product_id q) q td) [] qs))
   \<and> fst ` set (foldl (\<lambda>td q. AList.update (product_id q) q td) [] qs) = product_id ` set qs
   \<and> (\<forall>p \<in> set (foldl (\<lambda>td q. AList.update (product_id q) q td) [] qs).
         product_id (snd p) = fst p)"
proof (induction qs rule: rev_induct)
  case Nil
  show ?case by simp
next
  case (snoc q qs)
  let ?td = "foldl (\<lambda>td q. AList.update (product_id q) q td) [] qs"
  note ih = snoc.IH
  have unfold: "foldl (\<lambda>td q. AList.update (product_id q) q td) [] (qs @ [q])
      = AList.update (product_id q) q ?td"
    by simp
  have "distinct (map fst (AList.update (product_id q) q ?td))"
    using ih by (simp add: distinct_update)
  moreover have "fst ` set (AList.update (product_id q) q ?td) = product_id ` set (qs @ [q])"
    using ih by (simp add: dom_update)
  moreover have "\<forall>p \<in> set (AList.update (product_id q) q ?td). product_id (snd p) = fst p"
    using ih by (auto dest: update_entries)
  ultimately show ?case unfolding unfold by blast
qed

lemma collected_lookup:
  "map_of (foldl (\<lambda>td q. AList.update (product_id q) q td) [] qs) k
     = List.find (\<lambda>q. product_id q = k) (rev qs)"
  by (induction qs rule: rev_induct) (simp_all add: update_conv')

section \<open>The \<open>'message'\<close> listener in terms of the quote a message carries\<close>

lemma onMessage_no_ticker:
  "m \<noteq> Utf8 None \<Longrightarrow> ticker m = None \<Longrightarrow> onMessage productIds st m = Inr st"
  by (cases "(productIds, st, m)" rule: onMessage.cases)
     (auto simp: ticker_def split: if_splits)

lemma onMessage_ticker:
  assumes "ticker m = Some q" and "product_id q \<noteq> utf16 ''__proto__''"
  shows "onMessage productIds st m =
     Inr (if length (AList.update (product_id q) q (tickerData st)) = length productIds
          then st\<lparr>tickerData := AList.update (product_id q) q (tickerData st),
                  closeCalls := closeCalls st + 1,
                  returned := resolve (Object_values (AList.update (product_id q) q (tickerData st)))
                                (returned st)\<rparr>
          else st\<lparr>tickerData := AList.update (product_id q) q (tickerData st)\<rparr>)"
proof -
  from assms(1) obtain v where m: "m = Utf8 (Some v)" and v: "isCoinbaseTickerData v"
    and q: "q = asCoinbaseTickerData v"
    by (auto simp: ticker_def split: message.splits option.splits if_splits)
  from assms(2) have key: "product_id (asCoinbaseTickerData v) \<noteq> utf16 ''__proto__''"
    by (simp add: q)
  show ?thesis
    unfolding m using v key
    by (simp add: Let_def q length_Object_keys assign_other_key assignPrototype_other_key)
qed

lemma coinbaseRun_append:
  "coinbaseRun productIds st (xs @ ys) =
     (case coinbaseRun productIds st xs of
        Inl e \<Rightarrow> Inl e
      | Inr st' \<Rightarrow> coinbaseRun productIds st' ys)"
  by (induction xs arbitrary: st) (auto split: sum.splits)

section \<open>The collector along a sequence of messages\<close>

text \<open>
  After the messages \<open>ms\<close>, none of them unparsable and their quotes all for requested
  product ids: \<open>tickerData\<close> is what the assignments of the quotes built, and either the
  promise is pending and some requested product id has not reported, or the promise was
  resolved by a message \<open>m\<close> of \<open>ms\<close>, with the values \<open>tickerData\<close> had at that
  moment.
\<close>

lemma messages_invariant:
  assumes ne: "productIds \<noteq> []" and d: "distinct productIds"
    and np: "utf16 ''__proto__'' \<notin> set productIds"
    and parse: "Utf8 None \<notin> set ms"
    and sub: "product_id ` set (tickers ms) \<subseteq> set productIds"
    and st0: "subscribed st0" "returned st0 = Pending" "tickerData st0 = []"
  shows "\<exists>st. coinbaseRun productIds st0 (map Message ms) = Inr st
      \<and> subscribed st
      \<and> tickerData st = foldl (\<lambda>td q. AList.update (product_id q) q td) [] (tickers ms)
      \<and> ((returned st = Pending \<and> product_id ` set (tickers ms) \<noteq> set productIds)
          \<or> (\<exists>pre m post s1 s2.
                ms = pre @ m # post
              \<and> coinbaseRun productIds st0 (map Message pre) = Inr s1 \<and> returned s1 = Pending
              \<and> coinbaseRun productIds st0 (map Message (pre @ [m])) = Inr s2
              \<and> returned s2 = Fulfilled (Object_values (tickerData s2))
              \<and> tickerData s2 = foldl (\<lambda>td q. AList.update (product_id q) q td) [] (tickers (pre @ [m]))
              \<and> length (tickerData s2) = length productIds
              \<and> returned st = returned s2)
             \<and> 0 < closeCalls st)"
  using parse sub
proof (induction ms rule: rev_induct)
  case Nil
  from ne have "set productIds \<noteq> {}" by simp
  with st0 show ?case by (auto simp: tickers_def)
next
  case (snoc m ms)
  let ?put = "\<lambda>td q. AList.update (product_id q) q td"
  let ?resolved = "\<lambda>xs p. \<exists>pre m' post s1 s2.
        xs = pre @ m' # post
      \<and> coinbaseRun productIds st0 (map Message pre) = Inr s1 \<and> returned s1 = Pending
      \<and> coinbaseRun productIds st0 (map Message (pre @ [m'])) = Inr s2
      \<and> returned s2 = Fulfilled (Object_values (tickerData s2))
      \<and> tickerData s2 = foldl ?put [] (tickers (pre @ [m']))
      \<and> length (tickerData s2) = length productIds
      \<and> p = returned s2"
  from snoc.prems have parse': "Utf8 None \<notin> set ms" and m: "m \<noteq> Utf8 None"
    and sub': "product_id ` set (tickers ms) \<subseteq> set productIds"
    by (auto simp: tickers_append)
  from snoc.IH [OF parse' sub'] obtain st where
    run: "coinbaseRun productIds st0 (map Message ms) = Inr st"
    and conn: "subscribed st"
    and td: "tickerData st = foldl ?put [] (tickers ms)"
    and prom: "(returned st = Pending \<and> product_id ` set (tickers ms) \<noteq> set productIds)
             \<or> (?resolved ms (returned st) \<and> 0 < closeCalls st)"
    by blast
  have next_run: "coinbaseRun productIds st0 (map Message (ms @ [m])) = onMessage productIds st m"
    using run conn by (simp add: coinbaseRun_append split: sum.splits)
  have later: "?resolved (ms @ [m]) p" if "?resolved ms p" for p
  proof -
    from that obtain pre m' post s1 s2 where "ms = pre @ m' # post"
      and rest: "coinbaseRun productIds st0 (map Message pre) = Inr s1" "returned s1 = Pending"
        "coinbaseRun productIds st0 (map Message (pre @ [m'])) = Inr s2"
        "returned s2 = Fulfilled (Object_values (tickerData s2))"
        "tickerData s2 = foldl ?put [] (tickers (pre @ [m']))"
        "length (tickerData s2) = length productIds" "p = returned s2"
      by blast
    then have "ms @ [m] = pre @ m' # (post @ [m])" by simp
    with rest show ?thesis by blast
  qed
  show ?case
  proof (cases "ticker m")
    case None
    then have same: "onMessage productIds st m = Inr st"
      using m by (simp add: onMessage_no_ticker)
    have quotes: "tickers (ms @ [m]) = tickers ms"
      using None by (simp add: tickers_append tickers_single)
    have "(returned st = Pending
            \<and> product_id ` set (tickers (ms @ [m])) \<noteq> set productIds)
          \<or> (?resolved (ms @ [m]) (returned st) \<and> 0 < closeCalls st)"
      using prom
    proof (elim disjE conjE)
      assume "returned st = Pending" "product_id ` set (tickers ms) \<noteq> set productIds"
      then show ?thesis by (simp add: quotes)
    next
      assume resolved: "?resolved ms (returned st)" and closed: "0 < closeCalls st"
      from resolved have "?resolved (ms @ [m]) (returned st)" by (rule later)
      with closed show ?thesis by (intro disjI2 conjI)
    qed
    moreover have "coinbaseRun productIds st0 (map Message (ms @ [m])) = Inr st"
      using next_run same by simp
    moreover have "tickerData st = foldl ?put [] (tickers (ms @ [m]))"
      using td quotes by simp
    ultimately show ?thesis
      using conn by blast
  next
    case (Some q)
    let ?td = "AList.update (product_id q) q (tickerData st)"
    let ?st = "if length ?td = length productIds
          then st\<lparr>tickerData := ?td, closeCalls := closeCalls st + 1,
                  returned := resolve (Object_values ?td) (returned st)\<rparr>
          else st\<lparr>tickerData := ?td\<rparr>"
    have quotes: "tickers (ms @ [m]) = tickers ms @ [q]"
      using Some by (simp add: tickers_append tickers_single)
    with snoc.prems(2) have "product_id q \<in> set productIds"
      by auto
    with np have key: "product_id q \<noteq> utf16 ''__proto__''"
      by auto
    have stepped: "onMessage productIds st m = Inr ?st"
      using Some key by (rule onMessage_ticker)
    have obj: "?td = foldl ?put [] (tickers (ms @ [m]))"
      by (simp add: quotes td)
    have td': "tickerData ?st = foldl ?put [] (tickers (ms @ [m]))"
      using obj by simp
    have conn': "subscribed ?st"
      using conn by simp
    have "(returned ?st = Pending \<and> product_id ` set (tickers (ms @ [m])) \<noteq> set productIds)
        \<or> (?resolved (ms @ [m]) (returned ?st) \<and> 0 < closeCalls ?st)"
      using prom
    proof (elim disjE conjE)
      assume pending: "returned st = Pending"
      show ?thesis
      proof (cases "length ?td = length productIds")
        case True
        have "ms @ [m] = ms @ m # []" by simp
        moreover have "coinbaseRun productIds st0 (map Message (ms @ [m])) = Inr ?st"
          using next_run stepped by simp
        moreover have "returned ?st = Fulfilled (Object_values (tickerData ?st))"
          using True pending by simp
        moreover have "length (tickerData ?st) = length productIds"
          using True by simp
        ultimately have "?resolved (ms @ [m]) (returned ?st)"
          using run pending td' by blast
        moreover have "0 < closeCalls ?st"
          using True by simp
        ultimately show ?thesis by blast
      next
        case False
        from collected_keys [of "tickers (ms @ [m])"]
        have dist: "distinct (map fst ?td)"
          and keys: "fst ` set ?td = product_id ` set (tickers (ms @ [m]))"
          unfolding obj by blast+
        have "product_id ` set (tickers (ms @ [m])) \<noteq> set productIds"
        proof
          assume "product_id ` set (tickers (ms @ [m])) = set productIds"
          with keys have "set (map fst ?td) = set productIds" by simp
          then have "card (set (map fst ?td)) = card (set productIds)" by simp
          moreover have "card (set (map fst ?td)) = length (map fst ?td)"
            using dist by (rule distinct_card)
          moreover have "card (set productIds) = length productIds"
            using d by (rule distinct_card)
          ultimately have "length ?td = length productIds" by simp
          with False show False by simp
        qed
        with False pending show ?thesis by simp
      qed
    next
      assume resolved: "?resolved ms (returned st)" and closed: "0 < closeCalls st"
      from resolved have settled: "returned st \<noteq> Pending" by auto
      then have "returned ?st = returned st"
        by (cases "returned st") simp_all
      with later [OF resolved] have "?resolved (ms @ [m]) (returned ?st)" by simp
      moreover have "0 < closeCalls ?st" using closed by simp
      ultimately show ?thesis by (intro disjI2 conjI)
    qed
    moreover have "coinbaseRun productIds st0 (map Message (ms @ [m])) = Inr ?st"
      using next_run stepped by simp
    ultimately show ?thesis
      using conn' td' by blast
  qed
qed

section \<open>Completion of the streaming collector (C1)\<close>

text \<open>
  Counterexample to C1 as stated, for the request \<open>BTC-GBP\<close>. The collector counts the
  keys of \<open>tickerData\<close> and never compares them with the request: a valid ticker frame
  for \<open>ETH-GBP\<close> completes the count, and the call resolves with the quote of
  \<open>ETH-GBP\<close> and none for \<open>BTC-GBP\<close>. A text frame that is not JSON, followed by the
  frame for \<open>BTC-GBP\<close>, ends in the exception of \<open>JSON.parse\<close> and no resolution.
  And for the request \<open>__proto__\<close>, the frame for it creates no property, so the call
  stays pending.
\<close>

theorem collector_does_not_resolve_as_claimed:
  "coinbaseRun [utf16 ''BTC-GBP''] getCoinbasePriceData
     [Connect,
      Message (Utf8 (Some (JObj [(utf16 ''type'', JStr (utf16 ''ticker'')),
                                 (utf16 ''product_id'', JStr (utf16 ''ETH-GBP'')),
                                 (utf16 ''price'', JStr (utf16 ''1''))]))),
      Message (Utf8 (Some (JObj [(utf16 ''type'', JStr (utf16 ''ticker'')),
                                 (utf16 ''product_id'', JStr (utf16 ''BTC-GBP'')),
                                 (utf16 ''price'', JStr (utf16 ''2''))])))]
   = Inr \<lparr>tickerData =
            [(utf16 ''ETH-GBP'', \<lparr>product_id = utf16 ''ETH-GBP'', price = utf16 ''1''\<rparr>),
             (utf16 ''BTC-GBP'', \<lparr>product_id = utf16 ''BTC-GBP'', price = utf16 ''2''\<rparr>)],
          prototype = None,
          subscribed = True,
          sent = [subscribeConfig [utf16 ''BTC-GBP'']],
          closeCalls = 1,
          returned = Fulfilled [\<lparr>product_id = utf16 ''ETH-GBP'', price = utf16 ''1''\<rparr>]\<rparr>
   \<and> coinbaseRun [utf16 ''BTC-GBP''] getCoinbasePriceData
       [Connect,
        Message (Utf8 None),
        Message (Utf8 (Some (JObj [(utf16 ''type'', JStr (utf16 ''ticker'')),
                                   (utf16 ''product_id'', JStr (utf16 ''BTC-GBP'')),
                                   (utf16 ''price'', JStr (utf16 ''2''))])))]
     = Inl SyntaxError
   \<and> coinbaseRun [utf16 ''__proto__''] getCoinbasePriceData
       [Connect,
        Message (Utf8 (Some (JObj [(utf16 ''type'', JStr (utf16 ''ticker'')),
                                   (utf16 ''product_id'', JStr (utf16 ''__proto__'')),
                                   (utf16 ''price'', JStr (utf16 ''3''))])))]
     = Inr \<lparr>tickerData = [],
            prototype = Some (JObj [(utf16 ''type'', JStr (utf16 ''ticker'')),
                                    (utf16 ''product_id'', JStr (utf16 ''__proto__'')),
                                    (utf16 ''price'', JStr (utf16 ''3''))]),
            subscribed = True,
            sent = [subscribeConfig [utf16 ''__proto__'']],
            closeCalls = 0,
            returned = Pending\<rparr>"
  by (simp add: getCoinbasePriceData_def onConnect_def isCoinbaseTickerData_def
      asCoinbaseTickerData_def assign_def assignPrototype_def runsSetter_def Object_keys_def Object_values_def
      ownProperties_def arrayIndex_def isDigit_def utf16_def Let_def)

text \<open>
  C1, amended: let the request be a non-empty list of distinct product ids, none of them
  \<open>__proto__\<close>; let every text frame delivered after the connection be JSON; let the
  valid ticker frames among them be for requested product ids only, and let every
  requested product id have one. Then the call resolves: there is a frame \<open>m\<close> before
  which the promise is pending and at which it is fulfilled, with the value it keeps
  to the end; the connection is closed; and the value holds exactly as many quotes as
  product ids were requested, one for each of them, each being the last valid ticker
  frame received for its product id up to \<open>m\<close>.
\<close>

theorem collector_resolves:
  assumes "productIds \<noteq> []" and "distinct productIds"
    and "utf16 ''__proto__'' \<notin> set productIds"
    and "Utf8 None \<notin> set ms"
    and "product_id ` set (tickers ms) = set productIds"
  shows "\<exists>pre m post st qs.
       ms = pre @ m # post
     \<and> coinbaseRun productIds getCoinbasePriceData (Connect # map Message ms) = Inr st
     \<and> returned st = Fulfilled qs
     \<and> 0 < closeCalls st
     \<and> (\<exists>s. coinbaseRun productIds getCoinbasePriceData (Connect # map Message pre) = Inr s
            \<and> returned s = Pending)
     \<and> (\<exists>s. coinbaseRun productIds getCoinbasePriceData (Connect # map Message (pre @ [m]))
              = Inr s
            \<and> returned s = Fulfilled qs)
     \<and> length qs = length productIds
     \<and> mset (map product_id qs) = mset productIds
     \<and> (\<forall>q \<in> set qs. lastQuote (pre @ [m]) (product_id q) = Some q)"
proof -
  let ?put = "\<lambda>td q. AList.update (product_id q) q td"
  let ?st0 = "onConnect productIds getCoinbasePriceData"
  have start: "coinbaseRun productIds getCoinbasePriceData (Connect # evs)
      = coinbaseRun productIds ?st0 evs" for evs
    by simp
  have st0: "subscribed ?st0" "returned ?st0 = Pending" "tickerData ?st0 = []"
    by (simp_all add: onConnect_def getCoinbasePriceData_def)
  have sub: "product_id ` set (tickers ms) \<subseteq> set productIds"
    using assms(5) by simp
  from messages_invariant [OF assms(1-4) sub st0] assms(5)
  obtain st pre m post s1 s2 where
    run: "coinbaseRun productIds ?st0 (map Message ms) = Inr st"
    and split: "ms = pre @ m # post"
    and before: "coinbaseRun productIds ?st0 (map Message pre) = Inr s1" "returned s1 = Pending"
    and at: "coinbaseRun productIds ?st0 (map Message (pre @ [m])) = Inr s2"
      "returned s2 = Fulfilled (Object_values (tickerData s2))"
    and obj: "tickerData s2 = foldl ?put [] (tickers (pre @ [m]))"
    and len: "length (tickerData s2) = length productIds"
    and final: "returned st = returned s2" "0 < closeCalls st"
    by blast
  let ?td = "tickerData s2"
  let ?qs = "Object_values ?td"
  have "ms = (pre @ [m]) @ post"
    by (simp add: split)
  then have "tickers ms = tickers (pre @ [m]) @ tickers post"
    by (simp only: tickers_append)
  then have "set (tickers (pre @ [m])) \<subseteq> set (tickers ms)"
    by simp
  with assms(5) have ids: "product_id ` set (tickers (pre @ [m])) \<subseteq> set productIds"
    by blast
  have lookup: "map_of ?td k = lastQuote (pre @ [m]) k" for k
    using collected_lookup [of "tickers (pre @ [m])" k] by (simp add: obj lastQuote_def)
  from collected_keys [of "tickers (pre @ [m])"]
  have dist: "distinct (map fst ?td)"
    and keys: "fst ` set ?td = product_id ` set (tickers (pre @ [m]))"
    and own: "\<forall>p \<in> set ?td. product_id (snd p) = fst p"
    unfolding obj by blast+
  have "card (set (map fst ?td)) = length (map fst ?td)"
    using dist by (rule distinct_card)
  moreover have "card (set productIds) = length productIds"
    using assms(2) by (rule distinct_card)
  ultimately have "card (set (map fst ?td)) = card (set productIds)"
    using len by simp
  moreover have "set (map fst ?td) \<subseteq> set productIds"
    using keys ids by simp
  ultimately have "set (map fst ?td) = set productIds"
    by (simp add: card_subset_eq)
  with set_eq_iff_mset_eq_distinct [OF dist assms(2)]
  have all_keys: "mset (map fst ?td) = mset productIds"
    by blast
  have "map product_id ?qs = map fst (ownProperties ?td)"
    using own by (simp add: Object_values_def set_ownProperties)
  then have "mset (map product_id ?qs) = image_mset fst (mset (ownProperties ?td))"
    by simp
  also have "\<dots> = mset (map fst ?td)"
    by (simp add: mset_ownProperties)
  finally have one_each: "mset (map product_id ?qs) = mset productIds"
    using all_keys by simp
  have length: "length ?qs = length productIds"
    using len by (simp add: length_Object_values)
  have last: "\<forall>q \<in> set ?qs. lastQuote (pre @ [m]) (product_id q) = Some q"
  proof
    fix q
    assume "q \<in> set ?qs"
    then obtain k where entry: "(k, q) \<in> set ?td"
      by (auto simp: Object_values_def set_ownProperties)
    with own have "product_id q = k" by auto
    moreover from entry dist have "map_of ?td k = Some q" by simp
    ultimately show "lastQuote (pre @ [m]) (product_id q) = Some q"
      using lookup [of k] by simp
  qed
  have "coinbaseRun productIds getCoinbasePriceData (Connect # map Message ms) = Inr st"
    using run by (simp only: start)
  moreover have "returned st = Fulfilled ?qs"
    using final(1) at(2) by simp
  moreover have "\<exists>s. coinbaseRun productIds getCoinbasePriceData (Connect # map Message pre) = Inr s
            \<and> returned s = Pending"
    using before by (simp only: start) blast
  moreover have "\<exists>s. coinbaseRun productIds getCoinbasePriceData
              (Connect # map Message (pre @ [m])) = Inr s
            \<and> returned s = Fulfilled ?qs"
    using at by (simp only: start) blast
  ultimately show ?thesis
    using split final(2) length one_each last by blast
qed

theorem collector_resolves_witness:
  "[utf16 ''BTC-GBP'', utf16 ''XTZ-GBP''] \<noteq> []
   \<and> distinct [utf16 ''BTC-GBP'', utf16 ''XTZ-GBP'']
   \<and> utf16 ''__proto__'' \<notin> set [utf16 ''BTC-GBP'', utf16 ''XTZ-GBP'']
   \<and> Utf8 None \<notin> set
       [Utf8 (Some (JObj [(utf16 ''type'', JStr (utf16 ''subscriptions''))])),
        Utf8 (Some (JObj [(utf16 ''type'', JStr (utf16 ''ticker'')),
                          (utf16 ''product_id'', JStr (utf16 ''BTC-GBP'')),
                          (utf16 ''price'', JStr (utf16 ''1''))])),
        Binary,
        Utf8 (Some (JObj [(utf16 ''type'', JStr (utf16 ''ticker'')),
                          (utf16 ''product_id'', JStr (utf16 ''BTC-GBP'')),
                          (utf16 ''price'', JStr (utf16 ''2''))])),
        Utf8 (Some (JObj [(utf16 ''type'', JStr (utf16 ''ticker'')),
                          (utf16 ''product_id'', JStr (utf16 ''XTZ-GBP'')),
                          (utf16 ''price'', JStr (utf16 ''3''))]))]
   \<and> (\<exists>st. coinbaseRun [utf16 ''BTC-GBP'', utf16 ''XTZ-GBP''] getCoinbasePriceData
         (Connect # map Message
           [Utf8 (Some (JObj [(utf16 ''type'', JStr (utf16 ''subscriptions''))])),
            Utf8 (Some (JObj [(utf16 ''type'', JStr (utf16 ''ticker'')),
                              (utf16 ''product_id'', JStr (utf16 ''BTC-GBP'')),
                              (utf16 ''price'', JStr (utf16 ''1''))])),
            Binary,
            Utf8 (Some (JObj [(utf16 ''type'', JStr (utf16 ''ticker'')),
                              (utf16 ''product_id'', JStr (utf16 ''BTC-GBP'')),
                              (utf16 ''price'', JStr (utf16 ''2''))])),
            Utf8 (Some (JObj [(utf16 ''type'', JStr (utf16 ''ticker'')),
                              (utf16 ''product_id'', JStr (utf16 ''XTZ-GBP'')),
                              (utf16 ''price'', JStr (utf16 ''3''))]))])
        = Inr st
      \<and> 0 < closeCalls st
      \<and> returned st = Fulfilled [\<lparr>product_id = utf16 ''BTC-GBP'', price = utf16 ''2''\<rparr>,
                                  \<lparr>product_id = utf16 ''XTZ-GBP'', price = utf16 ''3''\<rparr>])"
proof -
  let ?ids = "[utf16 ''BTC-GBP'', utf16 ''XTZ-GBP'']"
  let ?ms = "[Utf8 (Some (JObj [(utf16 ''type'', JStr (utf16 ''subscriptions''))])),
        Utf8 (Some (JObj [(utf16 ''type'', JStr (utf16 ''ticker'')),
                          (utf16 ''product_id'', JStr (utf16 ''BTC-GBP'')),
                          (utf16 ''price'', JStr (utf16 ''1''))])),
        Binary,
        Utf8 (Some (JObj [(utf16 ''type'', JStr (utf16 ''ticker'')),
                          (utf16 ''product_id'', JStr (utf16 ''BTC-GBP'')),
                          (utf16 ''price'', JStr (utf16 ''2''))])),
        Utf8 (Some (JObj [(utf16 ''type'', JStr (utf16 ''ticker'')),
                          (utf16 ''product_id'', JStr (utf16 ''XTZ-GBP'')),
                          (utf16 ''price'', JStr (utf16 ''3''))]))]"
  have h1: "?ids \<noteq> []" by simp
  have h2: "distinct ?ids" by (simp add: utf16_def)
  have h3: "utf16 ''__proto__'' \<notin> set ?ids" by (simp add: utf16_def)
  have h4: "Utf8 None \<notin> set ?ms" by simp
  have h5: "product_id ` set (tickers ?ms) = set ?ids"
    by (simp add: tickers_def ticker_def isCoinbaseTickerData_def asCoinbaseTickerData_def
        utf16_def)
  have result: "coinbaseRun ?ids getCoinbasePriceData (Connect # map Message ?ms)
      = Inr \<lparr>tickerData =
               [(utf16 ''BTC-GBP'', \<lparr>product_id = utf16 ''BTC-GBP'', price = utf16 ''2''\<rparr>),
                (utf16 ''XTZ-GBP'', \<lparr>product_id = utf16 ''XTZ-GBP'', price = utf16 ''3''\<rparr>)],
             prototype = None,
             subscribed = True,
             sent = [subscribeConfig ?ids],
             closeCalls = 1,
             returned = Fulfilled [\<lparr>product_id = utf16 ''BTC-GBP'', price = utf16 ''2''\<rparr>,
                                   \<lparr>product_id = utf16 ''XTZ-GBP'', price = utf16 ''3''\<rparr>]\<rparr>"
    by (simp add: getCoinbasePriceData_def onConnect_def isCoinbaseTickerData_def
        asCoinbaseTickerData_def assign_def assignPrototype_def runsSetter_def Object_keys_def Object_values_def
        ownProperties_def arrayIndex_def isDigit_def utf16_def Let_def)
  from collector_resolves [OF h1 h2 h3 h4 h5] result h1 h2 h3 h4 show ?thesis
    by simp
qed


lemma proto_key_after_frame_with_that_key:
  "coinbaseRun [utf16 ''__proto__''] getCoinbasePriceData
     [Connect,
      Message (Utf8 (Some (JObj [(utf16 ''type'', JStr (utf16 ''ticker'')),
                                 (utf16 ''product_id'', JStr (utf16 ''__proto__'')),
                                 (utf16 ''price'', JStr (utf16 ''1'')),
                                 (utf16 ''__proto__'', JNull)]))),
      Message (Utf8 (Some (JObj [(utf16 ''type'', JStr (utf16 ''ticker'')),
                                 (utf16 ''product_id'', JStr (utf16 ''__proto__'')),
                                 (utf16 ''price'', JStr (utf16 ''2''))])))]
   = Inr \<lparr>tickerData =
            [(utf16 ''__proto__'', \<lparr>product_id = utf16 ''__proto__'', price = utf16 ''2''\<rparr>)],
          prototype = Some (JObj [(utf16 ''type'', JStr (utf16 ''ticker'')),
                                  (utf16 ''product_id'', JStr (utf16 ''__proto__'')),
                                  (utf16 ''price'', JStr (utf16 ''1'')),
                                  (utf16 ''__proto__'', JNull)]),
          subscribed = True,
          sent = [subscribeConfig [utf16 ''__proto__'']],
          closeCalls = 1,
          returned = Fulfilled [\<lparr>product_id = utf16 ''__proto__'', price = utf16 ''2''\<rparr>]\<rparr>"
  by (simp add: getCoinbasePriceData_def onConnect_def isCoinbaseTickerData_def
      asCoinbaseTickerData_def assign_def assignPrototype_def runsSetter_def Object_keys_def
      Object_values_def ownProperties_def arrayIndex_def isDigit_def utf16_def Let_def)

section \<open>Malformed frames on the streaming connection (C2)\<close>

text \<open>
  Counterexample to C2 as stated: a text frame whose text is not JSON fails validation
  too, and \<open>JSON.parse\<close> throws on it inside the \<open>'message'\<close> listener, which has no
  \<open>try\<close>: the frame is not discarded silently, the exception leaves the listener.
\<close>

theorem unparsable_frame_raises:
  "coinbaseRun coinbaseProductIds getCoinbasePriceData [Connect, Message (Utf8 None)]
     = Inl SyntaxError"
  by (simp add: onConnect_def getCoinbasePriceData_def)

text \<open>
  C2, amended: every text frame that parses as JSON and fails the guard
  \<open>isCoinbaseTickerData\<close> is discarded: the listener raises nothing and leaves the whole
  state as it was, the accumulated mapping included, and the frames that follow
  are handled as if the frame had not arrived.
\<close>

theorem invalid_frame_discarded:
  assumes "\<not> isCoinbaseTickerData v"
  shows "onMessage productIds st (Utf8 (Some v)) = Inr st
       \<and> coinbaseRun productIds st (Message (Utf8 (Some v)) # evs) = coinbaseRun productIds st evs"
  using assms by simp

theorem invalid_frame_discarded_witness:
  "\<not> isCoinbaseTickerData
       (JObj [(utf16 ''type'', JStr (utf16 ''heartbeat'')),
              (utf16 ''product_id'', JStr (utf16 ''BTC-GBP''))])
   \<and> onMessage coinbaseProductIds (onConnect coinbaseProductIds getCoinbasePriceData)
        (Utf8 (Some (JObj [(utf16 ''type'', JStr (utf16 ''heartbeat'')),
                           (utf16 ''product_id'', JStr (utf16 ''BTC-GBP''))])))
      = Inr (onConnect coinbaseProductIds getCoinbasePriceData)
   \<and> coinbaseRun coinbaseProductIds (onConnect coinbaseProductIds getCoinbasePriceData)
        [Message (Utf8 (Some (JObj [(utf16 ''type'', JStr (utf16 ''heartbeat'')),
                                    (utf16 ''product_id'', JStr (utf16 ''BTC-GBP''))])))]
      = coinbaseRun coinbaseProductIds (onConnect coinbaseProductIds getCoinbasePriceData) []"
proof -
  have guard: "\<not> isCoinbaseTickerData
       (JObj [(utf16 ''type'', JStr (utf16 ''heartbeat'')),
              (utf16 ''product_id'', JStr (utf16 ''BTC-GBP''))])"
    by (simp add: isCoinbaseTickerData_def utf16_def)
  show ?thesis
    using guard invalid_frame_discarded [OF guard, of coinbaseProductIds
        "onConnect coinbaseProductIds getCoinbasePriceData" "[]"]
    by blast
qed

section \<open>Errors on the streaming path (C3)\<close>

text \<open>
  Counterexample to C3 as stated: a failure to connect (DNS, TCP, TLS) is reported by
  the client's \<open>'connectFailed'\<close> event, for which no listener is registered. The promise
  stays pending and nothing reaches the top-level caller.
\<close>

theorem connect_failure_leaves_promise_pending:
  "run coinbaseProductIds binanceProductIds printExchangeRates
       [Coinbase (ConnectFailed (LibraryError 0))]
     = Inr printExchangeRates
   \<and> returned (coinbase printExchangeRates) = Pending
   \<and> finished printExchangeRates = Pending
   \<and> console printExchangeRates = []"
  by (simp add: printExchangeRates_def getCoinbasePriceData_def resume_def)

text \<open>
  C3, amended: in every state the process reaches, the collector's promise is never
  fulfilled with fewer quotes than product ids were requested; and an \<open>'error'\<close> event on
  the open connection, arriving while that promise is pending, closes the connection
  and rejects the promise with that error, for good. Nothing is ever written to the
  output, and if \<open>printExchangeRates()\<close> had not settled before, it rejects with that
  error, which is logged.
\<close>

theorem connection_error_rejects:
  assumes "run productIds idPairs printExchangeRates evs = Inr p"
  shows "(\<forall>qs. returned (coinbase p) = Fulfilled qs \<longrightarrow> length qs = length productIds)
     \<and> (subscribed (coinbase p) \<and> returned (coinbase p) = Pending \<longrightarrow>
         (\<exists>p'. step productIds idPairs p (Coinbase (ConnectionError e)) = Inr p'
            \<and> returned (coinbase p') = Rejected e
            \<and> closeCalls (coinbase p') = closeCalls (coinbase p) + 1
            \<and> (finished p = Pending \<longrightarrow> finished p' = Rejected e \<and> console p' = [e])
            \<and> (\<forall>evs' p''. run productIds idPairs p' evs' = Inr p'' \<longrightarrow>
                  returned (coinbase p'') = Rejected e \<and> stdout p'' = [])))"
proof (intro conjI impI)
  have inv: "invariant productIds p"
    using assms by (rule reachable_invariant)
  show "\<forall>qs. returned (coinbase p) = Fulfilled qs \<longrightarrow> length qs = length productIds"
    using inv by (auto simp: invariant_def)
  assume open_pending: "subscribed (coinbase p) \<and> returned (coinbase p) = Pending"
  define p' where "p' = resume (p\<lparr>coinbase := onError (coinbase p) e\<rparr>)"
  have st: "step productIds idPairs p (Coinbase (ConnectionError e)) = Inr p'"
    using open_pending by (simp add: p'_def)
  have rej: "returned (coinbase p') = Rejected e"
    using open_pending by (simp add: p'_def coinbase_resume onError_def)
  have closed: "closeCalls (coinbase p') = closeCalls (coinbase p) + 1"
    by (simp add: p'_def coinbase_resume onError_def)
  have top: "finished p = Pending \<longrightarrow> finished p' = Rejected e \<and> console p' = [e]"
    using open_pending inv by (auto simp: p'_def resume_def onError_def invariant_def)
  have inv': "invariant productIds p'"
    using inv st by (rule step_invariant)
  have later: "returned (coinbase p'') = Rejected e \<and> stdout p'' = []"
    if "run productIds idPairs p' evs' = Inr p''" for evs' p''
  proof -
    have r: "returned (coinbase p'') = Rejected e"
      using rej that by (rule run_coinbase_rejected)
    have "invariant productIds p''"
      using inv' that by (rule run_invariant)
    with r show ?thesis
      by (cases "finished p''") (auto simp: invariant_def)
  qed
  from st rej closed top later
  show "\<exists>p'. step productIds idPairs p (Coinbase (ConnectionError e)) = Inr p'
            \<and> returned (coinbase p') = Rejected e
            \<and> closeCalls (coinbase p') = closeCalls (coinbase p) + 1
            \<and> (finished p = Pending \<longrightarrow> finished p' = Rejected e \<and> console p' = [e])
            \<and> (\<forall>evs' p''. run productIds idPairs p' evs' = Inr p'' \<longrightarrow>
                  returned (coinbase p'') = Rejected e \<and> stdout p'' = [])"
    by blast
qed

theorem connection_error_rejects_witness:
  "run coinbaseProductIds binanceProductIds printExchangeRates [Coinbase Connect]
     = Inr (printExchangeRates\<lparr>coinbase := onConnect coinbaseProductIds getCoinbasePriceData\<rparr>)
   \<and> subscribed (onConnect coinbaseProductIds getCoinbasePriceData)
   \<and> returned (onConnect coinbaseProductIds getCoinbasePriceData) = Pending
   \<and> (\<exists>p'. step coinbaseProductIds binanceProductIds
              (printExchangeRates\<lparr>coinbase := onConnect coinbaseProductIds getCoinbasePriceData\<rparr>)
              (Coinbase (ConnectionError (LibraryError 7))) = Inr p'
          \<and> returned (coinbase p') = Rejected (LibraryError 7)
          \<and> closeCalls (coinbase p') = 1
          \<and> finished p' = Rejected (LibraryError 7)
          \<and> console p' = [LibraryError 7])"
proof -
  let ?p = "printExchangeRates\<lparr>coinbase := onConnect coinbaseProductIds getCoinbasePriceData\<rparr>"
  have reach: "run coinbaseProductIds binanceProductIds printExchangeRates [Coinbase Connect]
      = Inr ?p"
    by (simp add: printExchangeRates_def getCoinbasePriceData_def onConnect_def resume_def)
  have open_pending: "subscribed (coinbase ?p) \<and> returned (coinbase ?p) = Pending"
    by (simp add: getCoinbasePriceData_def onConnect_def)
  have fresh: "finished ?p = Pending" "closeCalls (coinbase ?p) = 0"
    by (simp_all add: printExchangeRates_def getCoinbasePriceData_def onConnect_def)
  from connection_error_rejects [OF reach, of "LibraryError 7"] open_pending fresh
  have "\<exists>p'. step coinbaseProductIds binanceProductIds ?p
              (Coinbase (ConnectionError (LibraryError 7))) = Inr p'
          \<and> returned (coinbase p') = Rejected (LibraryError 7)
          \<and> closeCalls (coinbase p') = 1
          \<and> finished p' = Rejected (LibraryError 7)
          \<and> console p' = [LibraryError 7]"
    by auto
  with reach open_pending show ?thesis by simp
qed


section \<open>The snapshot fetcher on a validated response (C4, C10)\<close>

lemma find_fst_map_of: "map_option snd (List.find (\<lambda>x. fst x = k) ps) = map_of ps k"
  by (induction ps) auto

lemma renamed_map_of:
  "renamed idPairs v =
     map_option (\<lambda>t. \<lparr>symbol = t, price = the_string (getProperty v (utf16 ''price''))\<rparr>)
       (map_of idPairs (the_string (getProperty v (utf16 ''symbol''))))"
  unfolding renamed_def Let_def find_fst_map_of [symmetric]
  by (simp split: option.splits)

lemma renamed_None_iff:
  "renamed idPairs v = None
     \<longleftrightarrow> the_string (getProperty v (utf16 ''symbol'')) \<notin> fst ` set idPairs"
  by (simp add: renamed_map_of map_of_eq_None_iff)

lemma map_the_filter_all2:
  assumes "\<And>v q. v \<in> set xs \<Longrightarrow> f v = Some q \<Longrightarrow> R q v"
  shows "list_all2 R (map the (filter isNotNull (map f xs))) (filter (\<lambda>v. f v \<noteq> None) xs)"
  using assms by (induction xs) (auto simp: isNotNull_def)

text \<open>
  C4: on a response that is an array of records passing \<open>isBinanceTickerData\<close>, the call
  resolves; its quotes are, in response order, one for each record whose symbol is the
  first component of some pair, with the price of the record and, as symbol, the second
  component of a pair whose first component is the record's symbol; the other records
  are dropped; and without pairs the result is empty.
\<close>

theorem snapshot_translation:
  assumes "list_all isBinanceTickerData xs"
  shows "\<exists>qs. onEnd idPairs Pending (Some (JArr xs)) = Inr (Fulfilled qs)
     \<and> list_all2
          (\<lambda>q v. BinanceTickerData.price q = the_string (getProperty v (utf16 ''price''))
                \<and> (the_string (getProperty v (utf16 ''symbol'')), symbol q) \<in> set idPairs)
          qs (filter (\<lambda>v. the_string (getProperty v (utf16 ''symbol'')) \<in> fst ` set idPairs) xs)
     \<and> (idPairs = [] \<longrightarrow> qs = [])"
proof -
  let ?qs = "map the (filter isNotNull (map (renamed idPairs) xs))"
  let ?R = "\<lambda>q v. BinanceTickerData.price q = the_string (getProperty v (utf16 ''price''))
                \<and> (the_string (getProperty v (utf16 ''symbol'')), symbol q) \<in> set idPairs"
  have resolved: "onEnd idPairs Pending (Some (JArr xs)) = Inr (Fulfilled ?qs)"
    using assms by simp
  have "list_all2 ?R ?qs (filter (\<lambda>v. renamed idPairs v \<noteq> None) xs)"
    by (rule map_the_filter_all2) (auto simp: renamed_map_of dest: map_of_SomeD)
  then have rel: "list_all2 ?R ?qs
      (filter (\<lambda>v. the_string (getProperty v (utf16 ''symbol'')) \<in> fst ` set idPairs) xs)"
    by (simp add: renamed_None_iff)
  have "idPairs = [] \<longrightarrow> ?qs = []"
    by (auto simp: renamed_def isNotNull_def filter_empty_conv)
  with resolved rel show ?thesis by blast
qed

theorem snapshot_translation_witness:
  "list_all isBinanceTickerData
     [JObj [(utf16 ''symbol'', JStr (utf16 ''ADABTC'')), (utf16 ''price'', JStr (utf16 ''1.23''))],
      JObj [(utf16 ''symbol'', JStr (utf16 ''XYZ'')), (utf16 ''price'', JStr (utf16 ''9.99''))],
      JObj [(utf16 ''symbol'', JStr (utf16 ''DOTBTC'')), (utf16 ''price'', JStr (utf16 ''4.56''))]]
   \<and> (\<exists>qs. onEnd binanceProductIds Pending (Some (JArr
     [JObj [(utf16 ''symbol'', JStr (utf16 ''ADABTC'')), (utf16 ''price'', JStr (utf16 ''1.23''))],
      JObj [(utf16 ''symbol'', JStr (utf16 ''XYZ'')), (utf16 ''price'', JStr (utf16 ''9.99''))],
      JObj [(utf16 ''symbol'', JStr (utf16 ''DOTBTC'')), (utf16 ''price'', JStr (utf16 ''4.56''))]]))
       = Inr (Fulfilled qs)
     \<and> qs = [\<lparr>symbol = utf16 ''ADA-BTC'', price = utf16 ''1.23''\<rparr>,
             \<lparr>symbol = utf16 ''DOT-BTC'', price = utf16 ''4.56''\<rparr>])"
proof -
  let ?xs = "[JObj [(utf16 ''symbol'', JStr (utf16 ''ADABTC'')), (utf16 ''price'', JStr (utf16 ''1.23''))],
      JObj [(utf16 ''symbol'', JStr (utf16 ''XYZ'')), (utf16 ''price'', JStr (utf16 ''9.99''))],
      JObj [(utf16 ''symbol'', JStr (utf16 ''DOTBTC'')), (utf16 ''price'', JStr (utf16 ''4.56''))]]"
  have valid: "list_all isBinanceTickerData ?xs"
    by (simp add: isBinanceTickerData_def utf16_def)
  have "onEnd binanceProductIds Pending (Some (JArr ?xs))
     = Inr (Fulfilled [\<lparr>symbol = utf16 ''ADA-BTC'', price = utf16 ''1.23''\<rparr>,
                       \<lparr>symbol = utf16 ''DOT-BTC'', price = utf16 ''4.56''\<rparr>])"
    by (simp add: isBinanceTickerData_def renamed_def isNotNull_def binanceProductIds_def
        utf16_def)
  with valid snapshot_translation [OF valid, of binanceProductIds] show ?thesis
    by auto
qed

text \<open>
  C10: when the pair \<open>(s, t)\<close> is the first pair of the sequence whose first component
  is \<open>s\<close>, whatever pairs follow it, every record with symbol \<open>s\<close> is emitted with the
  symbol \<open>t\<close> and its own price; and the result holds at most one quote per record.
\<close>

theorem first_pair_wins:
  assumes "list_all isBinanceTickerData xs" and "s \<notin> fst ` set pre"
  shows "\<exists>qs. onEnd (pre @ (s, t) # rest) Pending (Some (JArr xs)) = Inr (Fulfilled qs)
     \<and> length qs \<le> length xs
     \<and> list_all2
          (\<lambda>q v. the_string (getProperty v (utf16 ''symbol'')) = s \<longrightarrow>
             q = \<lparr>symbol = t, price = the_string (getProperty v (utf16 ''price''))\<rparr>)
          qs (filter (\<lambda>v. the_string (getProperty v (utf16 ''symbol''))
                            \<in> fst ` set (pre @ (s, t) # rest)) xs)"
proof -
  let ?ps = "pre @ (s, t) # rest"
  let ?qs = "map the (filter isNotNull (map (renamed ?ps) xs))"
  let ?R = "\<lambda>q v. the_string (getProperty v (utf16 ''symbol'')) = s \<longrightarrow>
             q = \<lparr>symbol = t, price = the_string (getProperty v (utf16 ''price''))\<rparr>"
  have resolved: "onEnd ?ps Pending (Some (JArr xs)) = Inr (Fulfilled ?qs)"
    using assms(1) by simp
  have len: "length ?qs \<le> length xs"
    using length_filter_le [of isNotNull "map (renamed ?ps) xs"] by simp
  have first: "map_of ?ps s = Some t"
    using assms(2) by (simp add: map_add_def map_of_eq_None_iff [THEN iffD2])
  have "list_all2 ?R ?qs (filter (\<lambda>v. renamed ?ps v \<noteq> None) xs)"
    by (rule map_the_filter_all2) (use first in \<open>auto simp: renamed_map_of\<close>)
  then have "list_all2 ?R ?qs
      (filter (\<lambda>v. the_string (getProperty v (utf16 ''symbol'')) \<in> fst ` set ?ps) xs)"
    by (simp only: renamed_None_iff not_not)
  with resolved len show ?thesis by blast
qed

theorem first_pair_wins_witness:
  "list_all isBinanceTickerData
     [JObj [(utf16 ''symbol'', JStr (utf16 ''ADABTC'')), (utf16 ''price'', JStr (utf16 ''1.23''))]]
   \<and> utf16 ''ADABTC'' \<notin> fst ` set [(utf16 ''DOTBTC'', utf16 ''DOT-BTC'')]
   \<and> (\<exists>qs. onEnd ([(utf16 ''DOTBTC'', utf16 ''DOT-BTC'')]
                   @ (utf16 ''ADABTC'', utf16 ''ADA-BTC'') # [(utf16 ''ADABTC'', utf16 ''LATER'')])
              Pending
              (Some (JArr [JObj [(utf16 ''symbol'', JStr (utf16 ''ADABTC'')),
                                 (utf16 ''price'', JStr (utf16 ''1.23''))]]))
          = Inr (Fulfilled qs)
        \<and> qs = [\<lparr>symbol = utf16 ''ADA-BTC'', price = utf16 ''1.23''\<rparr>])"
proof -
  let ?xs = "[JObj [(utf16 ''symbol'', JStr (utf16 ''ADABTC'')),
                    (utf16 ''price'', JStr (utf16 ''1.23''))]]"
  have valid: "list_all isBinanceTickerData ?xs"
    by (simp add: isBinanceTickerData_def utf16_def)
  have fresh: "utf16 ''ADABTC'' \<notin> fst ` set [(utf16 ''DOTBTC'', utf16 ''DOT-BTC'')]"
    by (simp add: utf16_def)
  have "onEnd ([(utf16 ''DOTBTC'', utf16 ''DOT-BTC'')]
                   @ (utf16 ''ADABTC'', utf16 ''ADA-BTC'') # [(utf16 ''ADABTC'', utf16 ''LATER'')])
              Pending (Some (JArr ?xs))
     = Inr (Fulfilled [\<lparr>symbol = utf16 ''ADA-BTC'', price = utf16 ''1.23''\<rparr>])"
    by (simp add: isBinanceTickerData_def renamed_def isNotNull_def utf16_def)
  with valid fresh
    first_pair_wins [OF valid fresh, of "utf16 ''ADA-BTC''" "[(utf16 ''ADABTC'', utf16 ''LATER'')]"]
  show ?thesis by auto
qed

section \<open>The snapshot fetcher on other responses (C5, C6)\<close>

text \<open>
  C5: when the parsed body is not an array, or is an array with an element that fails
  \<open>isBinanceTickerData\<close>, the pending call rejects with the error
  \<open>Invalid JSON response data\<close>, and in no later state of the process is its promise
  anything else.
\<close>

theorem invalid_response_rejected:
  assumes "\<not> (Array_isArray j \<and> list_all isBinanceTickerData (elements j))"
    and "binance p = Pending"
  shows "\<exists>p'. step productIds idPairs p (Binance (End (Some j))) = Inr p'
     \<and> binance p' = Rejected (Error (utf16 ''Invalid JSON response data''))
     \<and> (\<forall>evs p''. run productIds idPairs p' evs = Inr p'' \<longrightarrow>
           binance p'' = Rejected (Error (utf16 ''Invalid JSON response data'')))"
proof -
  let ?E = "Error (utf16 ''Invalid JSON response data'')"
  define p' where "p' = resume (p\<lparr>binance := Rejected ?E\<rparr>)"
  have "onEnd idPairs (binance p) (Some j) = Inr (Rejected ?E)"
    using assms by auto
  then have st: "step productIds idPairs p (Binance (End (Some j))) = Inr p'"
    by (simp add: p'_def)
  have rej: "binance p' = Rejected ?E"
    by (simp add: p'_def binance_resume)
  have "binance p'' = Rejected ?E" if "run productIds idPairs p' evs = Inr p''" for evs p''
    using rej that by (rule run_binance_rejected)
  with st rej show ?thesis by blast
qed

theorem invalid_response_rejected_witness:
  "\<not> (Array_isArray (JObj []) \<and> list_all isBinanceTickerData (elements (JObj [])))
   \<and> binance printExchangeRates = Pending
   \<and> (\<exists>p'. step coinbaseProductIds binanceProductIds printExchangeRates
              (Binance (End (Some (JObj [])))) = Inr p'
          \<and> binance p' = Rejected (Error (utf16 ''Invalid JSON response data'')))"
proof -
  have shape: "\<not> (Array_isArray (JObj []) \<and> list_all isBinanceTickerData (elements (JObj [])))"
    by simp
  have pending: "binance printExchangeRates = Pending"
    by (simp add: printExchangeRates_def)
  from invalid_response_rejected [OF shape pending, of coinbaseProductIds binanceProductIds]
  show ?thesis using shape pending by blast
qed

text \<open>
  Counterexample to C6 as stated: on a body that is not JSON, \<open>JSON.parse\<close> throws inside
  the \<open>'end'\<close> listener. The exception is thrown outside the promise, which is not
  rejected: the process ends with the uncaught \<open>SyntaxError\<close>.
\<close>

theorem non_json_body_is_not_a_rejection:
  "run coinbaseProductIds binanceProductIds printExchangeRates [Binance (End None)]
     = Inl SyntaxError"
  by simp

lemma run_append:
  "run productIds idPairs p (xs @ ys) =
     (case run productIds idPairs p xs of
        Inl e \<Rightarrow> Inl e
      | Inr p' \<Rightarrow> run productIds idPairs p' ys)"
  by (induction xs arbitrary: p) (auto split: sum.splits)

text \<open>
  C6, amended: on a body that is not JSON the \<open>'end'\<close> listener throws \<open>SyntaxError\<close>
  whatever the state of the promise, so the promise is not settled by it. No sequence
  of events with such a body leads the process to a state: if the process is still
  running when the body ends, it ends with the uncaught \<open>SyntaxError\<close>.
\<close>

theorem non_json_body_throws:
  "onEnd idPairs q None = Inl SyntaxError
   \<and> (\<exists>e. run productIds idPairs p (pre @ Binance (End None) # post) = Inl e)
   \<and> (\<forall>p'. run productIds idPairs p pre = Inr p' \<longrightarrow>
          run productIds idPairs p (pre @ Binance (End None) # post) = Inl SyntaxError)"
proof (intro conjI allI impI)
  show "onEnd idPairs q None = Inl SyntaxError"
    by simp
  show "\<exists>e. run productIds idPairs p (pre @ Binance (End None) # post) = Inl e"
    by (cases "run productIds idPairs p pre") (simp_all add: run_append)
  show "run productIds idPairs p (pre @ Binance (End None) # post) = Inl SyntaxError"
    if "run productIds idPairs p pre = Inr p'" for p'
    using that by (simp add: run_append)
qed

theorem non_json_body_throws_witness:
  "run coinbaseProductIds binanceProductIds printExchangeRates [Coinbase Connect]
     = Inr (printExchangeRates\<lparr>coinbase := onConnect coinbaseProductIds getCoinbasePriceData\<rparr>)
   \<and> run coinbaseProductIds binanceProductIds printExchangeRates
       ([Coinbase Connect] @ Binance (End None) # [Coinbase (ConnectionError (LibraryError 1))])
     = Inl SyntaxError"
proof -
  have alive: "run coinbaseProductIds binanceProductIds printExchangeRates [Coinbase Connect]
     = Inr (printExchangeRates\<lparr>coinbase := onConnect coinbaseProductIds getCoinbasePriceData\<rparr>)"
    by (simp add: printExchangeRates_def getCoinbasePriceData_def onConnect_def resume_def)
  from non_json_body_throws [of binanceProductIds Pending coinbaseProductIds printExchangeRates
      "[Coinbase Connect]" "[Coinbase (ConnectionError (LibraryError 1))]"] alive
  show ?thesis by blast
qed

section \<open>The output (C7)\<close>

lemma written_rows_sorted:
  "\<exists>rows. written coinbaseResults binanceResults
        = (utf16 ''Exchange,Market,Price'' @ [newline]) # rows
     \<and> sorted rows
     \<and> mset rows
        = mset (map (\<lambda>q. utf16 ''Binance'' @ utf16 '','' @ symbol q @ utf16 '',''
                         @ BinanceTickerData.price q @ [newline]) binanceResults)
        + mset (map (\<lambda>q. utf16 ''Coinbase'' @ utf16 '','' @ product_id q @ utf16 '',''
                         @ CoinbaseTickerData.price q @ [newline]) coinbaseResults)"
proof -
  have b: "binanceLine = (\<lambda>q. utf16 ''Binance'' @ utf16 '','' @ symbol q @ utf16 '',''
      @ BinanceTickerData.price q @ [newline])"
    by (rule ext) (simp add: binanceLine_def utf16_def)
  have c: "coinbaseLine = (\<lambda>q. utf16 ''Coinbase'' @ utf16 '','' @ product_id q @ utf16 '',''
      @ CoinbaseTickerData.price q @ [newline])"
    by (rule ext) (simp add: coinbaseLine_def utf16_def)
  show ?thesis
    unfolding written_def b c by simp
qed

lemma written_example:
  "written [\<lparr>product_id = utf16 ''BTC-GBP'', price = utf16 ''50000.00''\<rparr>]
           [\<lparr>symbol = utf16 ''ADA-BTC'', price = utf16 ''0.55''\<rparr>]
   = [utf16 ''Exchange,Market,Price'' @ [0x0A],
      utf16 ''Binance,ADA-BTC,0.55'' @ [0x0A],
      utf16 ''Coinbase,BTC-GBP,50000.00'' @ [0x0A]]"
  by (simp add: written_def binanceLine_def coinbaseLine_def utf16_def newline_def)

lemma both_fulfilled_finished:
  assumes "invariant productIds p"
    and "returned (coinbase p) = Fulfilled c" and "binance p = Fulfilled b"
  shows "finished p = Fulfilled () \<and> stdout p = written c b \<and> console p = []"
  using assms by (cases "finished p") (auto simp: invariant_def)

text \<open>
  Counterexample to C7 as stated. The snapshot response quotes \<open>ADABTC\<close> twice, at the
  prices \<open>1\<close> and \<open>1<TAB>\<close>. The rows \<open>Binance,ADA-BTC,1\<close> and
  \<open>Binance,ADA-BTC,1<TAB>\<close> are in lexicographic order as listed, the first being a
  prefix of the second; sorted as rows and then terminated, they would be written in
  that order. The code sorts the lines with their terminator, and the line feed is
  above the tabulator: the line of \<open>1<TAB>\<close> is written first.
\<close>

theorem terminator_is_part_of_the_sort_key:
  "run [utf16 ''BTC-GBP''] [(utf16 ''ADABTC'', utf16 ''ADA-BTC'')] printExchangeRates
     [Coinbase Connect,
      Coinbase (Message (Utf8 (Some
        (JObj [(utf16 ''type'', JStr (utf16 ''ticker'')),
               (utf16 ''product_id'', JStr (utf16 ''BTC-GBP'')),
               (utf16 ''price'', JStr (utf16 ''5''))])))),
      Binance (End (Some (JArr
        [JObj [(utf16 ''symbol'', JStr (utf16 ''ADABTC'')),
               (utf16 ''price'', JStr (utf16 ''1''))],
         JObj [(utf16 ''symbol'', JStr (utf16 ''ADABTC'')),
               (utf16 ''price'', JStr (utf16 ''1'' @ [0x09]))]])))]
   = Inr \<lparr>coinbase =
            \<lparr>tickerData = [(utf16 ''BTC-GBP'',
                             \<lparr>product_id = utf16 ''BTC-GBP'', price = utf16 ''5''\<rparr>)],
             prototype = None,
             subscribed = True,
             sent = [subscribeConfig [utf16 ''BTC-GBP'']],
             closeCalls = 1,
             returned = Fulfilled [\<lparr>product_id = utf16 ''BTC-GBP'', price = utf16 ''5''\<rparr>]\<rparr>,
          binance = Fulfilled [\<lparr>symbol = utf16 ''ADA-BTC'', price = utf16 ''1''\<rparr>,
                               \<lparr>symbol = utf16 ''ADA-BTC'', price = utf16 ''1'' @ [0x09]\<rparr>],
          finished = Fulfilled (),
          stdout = [utf16 ''Exchange,Market,Price'' @ [0x0A],
                    utf16 ''Binance,ADA-BTC,1'' @ [0x09, 0x0A],
                    utf16 ''Binance,ADA-BTC,1'' @ [0x0A],
                    utf16 ''Coinbase,BTC-GBP,5'' @ [0x0A]],
          console = []\<rparr>
   \<and> sort [utf16 ''Binance,ADA-BTC,1'',
            utf16 ''Binance,ADA-BTC,1'' @ [0x09],
            utf16 ''Coinbase,BTC-GBP,5'']
     = [utf16 ''Binance,ADA-BTC,1'',
        utf16 ''Binance,ADA-BTC,1'' @ [0x09],
        utf16 ''Coinbase,BTC-GBP,5'']"
  by (simp add: printExchangeRates_def getCoinbasePriceData_def onConnect_def resume_def
      isBinanceTickerData_def isCoinbaseTickerData_def asCoinbaseTickerData_def
      renamed_def isNotNull_def assign_def assignPrototype_def runsSetter_def Object_keys_def
      Object_values_def ownProperties_def arrayIndex_def isDigit_def
      written_def binanceLine_def coinbaseLine_def newline_def utf16_def Let_def)

text \<open>
  C7, amended: in every state the process reaches with both calls fulfilled,
  \<open>printExchangeRates()\<close> is fulfilled and what has been written to the output is the
  header line \<open>Exchange,Market,Price\<close> and then the lines. The lines are, counted with
  repetitions, the strings \<open>Binance,<symbol>,<price>\<close> of the snapshot quotes and
  \<open>Coinbase,<product_id>,<price>\<close> of the streaming quotes, each ending in its line
  terminator, and they are written in the lexicographic order of these whole lines, the
  terminator being part of the string that is compared.
\<close>

theorem sorted_lines_written:
  assumes "run productIds idPairs printExchangeRates evs = Inr p"
    and "returned (coinbase p) = Fulfilled coinbaseResults"
    and "binance p = Fulfilled binanceResults"
  shows "finished p = Fulfilled ()
     \<and> (\<exists>rows. stdout p = (utf16 ''Exchange,Market,Price'' @ [newline]) # rows
          \<and> sorted rows
          \<and> mset rows
             = mset (map (\<lambda>q. utf16 ''Binance'' @ utf16 '','' @ symbol q @ utf16 '',''
                              @ BinanceTickerData.price q @ [newline]) binanceResults)
             + mset (map (\<lambda>q. utf16 ''Coinbase'' @ utf16 '','' @ product_id q @ utf16 '',''
                              @ CoinbaseTickerData.price q @ [newline]) coinbaseResults))"
proof -
  have "invariant productIds p"
    using assms(1) by (rule reachable_invariant)
  then have "finished p = Fulfilled ()"
    and "stdout p = written coinbaseResults binanceResults"
    using both_fulfilled_finished [OF _ assms(2,3)] by blast+
  with written_rows_sorted [of coinbaseResults binanceResults] show ?thesis
    by simp
qed

theorem sorted_lines_written_witness:
  "run [utf16 ''BTC-GBP''] [(utf16 ''ADABTC'', utf16 ''ADA-BTC'')] printExchangeRates
     [Coinbase Connect,
      Binance (End (Some (JArr
        [JObj [(utf16 ''symbol'', JStr (utf16 ''ADABTC'')),
               (utf16 ''price'', JStr (utf16 ''0.55''))]]))),
      Coinbase (Message (Utf8 (Some
        (JObj [(utf16 ''type'', JStr (utf16 ''ticker'')),
               (utf16 ''product_id'', JStr (utf16 ''BTC-GBP'')),
               (utf16 ''price'', JStr (utf16 ''50000.00''))]))))]
   = Inr \<lparr>coinbase =
            \<lparr>tickerData = [(utf16 ''BTC-GBP'',
                             \<lparr>product_id = utf16 ''BTC-GBP'', price = utf16 ''50000.00''\<rparr>)],
             prototype = None,
             subscribed = True,
             sent = [subscribeConfig [utf16 ''BTC-GBP'']],
             closeCalls = 1,
             returned = Fulfilled [\<lparr>product_id = utf16 ''BTC-GBP'', price = utf16 ''50000.00''\<rparr>]\<rparr>,
          binance = Fulfilled [\<lparr>symbol = utf16 ''ADA-BTC'', price = utf16 ''0.55''\<rparr>],
          finished = Fulfilled (),
          stdout = [utf16 ''Exchange,Market,Price'' @ [0x0A],
                    utf16 ''Binance,ADA-BTC,0.55'' @ [0x0A],
                    utf16 ''Coinbase,BTC-GBP,50000.00'' @ [0x0A]],
          console = []\<rparr>"
proof -
  let ?evs = "[Coinbase Connect,
      Binance (End (Some (JArr
        [JObj [(utf16 ''symbol'', JStr (utf16 ''ADABTC'')),
               (utf16 ''price'', JStr (utf16 ''0.55''))]]))),
      Coinbase (Message (Utf8 (Some
        (JObj [(utf16 ''type'', JStr (utf16 ''ticker'')),
               (utf16 ''product_id'', JStr (utf16 ''BTC-GBP'')),
               (utf16 ''price'', JStr (utf16 ''50000.00''))]))))]"
  let ?c = "[\<lparr>product_id = utf16 ''BTC-GBP'', price = utf16 ''50000.00''\<rparr>]"
  let ?b = "[\<lparr>symbol = utf16 ''ADA-BTC'', price = utf16 ''0.55''\<rparr>]"
  let ?p = "\<lparr>coinbase =
            \<lparr>tickerData = [(utf16 ''BTC-GBP'',
                             \<lparr>product_id = utf16 ''BTC-GBP'', price = utf16 ''50000.00''\<rparr>)],
             prototype = None,
             subscribed = True,
             sent = [subscribeConfig [utf16 ''BTC-GBP'']],
             closeCalls = 1,
             returned = Fulfilled ?c\<rparr>,
          binance = Fulfilled ?b,
          finished = Fulfilled (),
          stdout = [utf16 ''Exchange,Market,Price'' @ [0x0A],
                    utf16 ''Binance,ADA-BTC,0.55'' @ [0x0A],
                    utf16 ''Coinbase,BTC-GBP,50000.00'' @ [0x0A]],
          console = []\<rparr>"
  have reach: "run [utf16 ''BTC-GBP''] [(utf16 ''ADABTC'', utf16 ''ADA-BTC'')]
      printExchangeRates ?evs = Inr ?p"
    by (simp add: printExchangeRates_def getCoinbasePriceData_def onConnect_def resume_def
        isBinanceTickerData_def isCoinbaseTickerData_def asCoinbaseTickerData_def
        renamed_def isNotNull_def assign_def assignPrototype_def runsSetter_def Object_keys_def
        Object_values_def ownProperties_def arrayIndex_def isDigit_def
        written_def binanceLine_def coinbaseLine_def newline_def utf16_def Let_def)
  have c: "returned (coinbase ?p) = Fulfilled ?c" and b: "binance ?p = Fulfilled ?b"
    by simp_all
  from sorted_lines_written [OF reach c b] reach show ?thesis
    by simp
qed

section \<open>All or nothing (C8)\<close>

text \<open>
  C8: in every state the process reaches in which the promise of either call is
  rejected, nothing has been written to the output, neither header nor rows, and
  \<open>printExchangeRates()\<close> is rejected with the error of a rejected call.
\<close>

theorem rejection_writes_nothing:
  assumes "run productIds idPairs printExchangeRates evs = Inr p"
    and "returned (coinbase p) = Rejected e \<or> binance p = Rejected e"
  shows "stdout p = []
     \<and> (\<exists>e'. finished p = Rejected e'
            \<and> (returned (coinbase p) = Rejected e' \<or> binance p = Rejected e'))"
proof -
  have inv: "invariant productIds p"
    using assms(1) by (rule reachable_invariant)
  show ?thesis
  proof (cases "finished p")
    case Pending
    with inv have "Promise_all (returned (coinbase p)) (binance p) = Pending"
      by (simp add: invariant_def)
    with assms(2) show ?thesis
      by (cases "returned (coinbase p)") auto
  next
    case (Fulfilled u)
    with inv assms(2) show ?thesis
      by (cases "returned (coinbase p)") (auto simp: invariant_def)
  next
    case (Rejected e')
    with inv show ?thesis by (simp add: invariant_def)
  qed
qed

theorem rejection_writes_nothing_witness:
  "run coinbaseProductIds binanceProductIds printExchangeRates
       [Coinbase Connect, Binance (End (Some (JArr [JNull])))]
     = Inr \<lparr>coinbase = onConnect coinbaseProductIds getCoinbasePriceData,
            binance = Rejected (Error (utf16 ''Invalid JSON response data'')),
            finished = Rejected (Error (utf16 ''Invalid JSON response data'')),
            stdout = [],
            console = [Error (utf16 ''Invalid JSON response data'')]\<rparr>"
proof -
  let ?E = "Error (utf16 ''Invalid JSON response data'')"
  let ?p = "\<lparr>coinbase = onConnect coinbaseProductIds getCoinbasePriceData,
            binance = Rejected ?E, finished = Rejected ?E, stdout = [], console = [?E]\<rparr>"
  have reach: "run coinbaseProductIds binanceProductIds printExchangeRates
       [Coinbase Connect, Binance (End (Some (JArr [JNull])))] = Inr ?p"
    by (simp add: printExchangeRates_def getCoinbasePriceData_def onConnect_def resume_def
        isBinanceTickerData_def)
  have rejected: "returned (coinbase ?p) = Rejected ?E \<or> binance ?p = Rejected ?E"
    by simp
  from rejection_writes_nothing [OF reach rejected] reach show ?thesis
    by simp
qed

section \<open>The exit status (C9)\<close>

text \<open>
  Counterexample to C9 as stated: the snapshot response is a JSON object, so
  \<open>printExchangeRates()\<close> rejects and the \<open>catch\<close> of the last line logs the error; then
  the streaming connection fails and is closed, which leaves the process nothing to wait
  for. The \<open>catch\<close> has handled the rejection and nothing sets an exit status, so the
  status of the process is zero.
\<close>

theorem rejection_exits_with_status_zero:
  "run coinbaseProductIds binanceProductIds printExchangeRates
     [Binance (End (Some (JObj []))),
      Coinbase Connect,
      Coinbase (ConnectionError (LibraryError 0))]
     = Inr \<lparr>coinbase =
              \<lparr>tickerData = [],
               prototype = None,
               subscribed = True,
               sent = [subscribeConfig coinbaseProductIds],
               closeCalls = 1,
               returned = Rejected (LibraryError 0)\<rparr>,
            binance = Rejected (Error (utf16 ''Invalid JSON response data'')),
            finished = Rejected (Error (utf16 ''Invalid JSON response data'')),
            stdout = [],
            console = [Error (utf16 ''Invalid JSON response data'')]\<rparr>
   \<and> exitStatus
        (run coinbaseProductIds binanceProductIds printExchangeRates
           [Binance (End (Some (JObj []))),
            Coinbase Connect,
            Coinbase (ConnectionError (LibraryError 0))])
     = 0"
  by (simp add: printExchangeRates_def getCoinbasePriceData_def onConnect_def onError_def
      resume_def)

lemma step_total:
  assumes "\<not> fatal ev"
  shows "\<exists>p'. step productIds idPairs p ev = Inr p'"
proof (cases ev)
  case (Coinbase cev)
  show ?thesis
  proof (cases cev)
    case (Message m)
    with Coinbase assms have "m \<noteq> Utf8 None" by auto
    then have "\<exists>c. onMessage productIds (coinbase p) m = Inr c"
      by (cases "(productIds, coinbase p, m)" rule: onMessage.cases) (auto simp: Let_def)
    with Coinbase Message show ?thesis by auto
  qed (use Coinbase in auto)
next
  case (Binance bev)
  show ?thesis
  proof (cases bev)
    case (End parsed)
    with Binance assms obtain j where "parsed = Some j"
      by (cases parsed) auto
    with Binance End show ?thesis by auto
  next
    case (RequestError e)
    with Binance assms show ?thesis by simp
  qed
qed

lemma run_total:
  "\<not> list_ex fatal evs \<Longrightarrow> \<exists>p'. run productIds idPairs p evs = Inr p'"
proof (induction evs arbitrary: p)
  case Nil
  show ?case by simp
next
  case (Cons ev evs)
  then have "\<not> fatal ev" and rest: "\<not> list_ex fatal evs" by simp_all
  from step_total [OF this(1)] obtain p' where "step productIds idPairs p ev = Inr p'"
    by blast
  with Cons.IH [OF rest, of p'] show ?case by simp
qed

text \<open>
  C9, amended: take any sequence of events in which no text frame and no response body
  fails to be JSON and the request has no \<open>'error'\<close> event. Then no exception ends the
  process, and its exit status is zero whether \<open>printExchangeRates()\<close> has rejected or
  fulfilled: when it has rejected, its error is what has been logged and nothing has
  been written; when it has fulfilled, both calls have fulfilled, the header and the
  sorted lines of their results are what has been written, and nothing has been logged.
\<close>

theorem exit_status_zero:
  assumes "\<not> list_ex fatal evs"
  shows "\<exists>p. run productIds idPairs printExchangeRates evs = Inr p
     \<and> exitStatus (run productIds idPairs printExchangeRates evs) = 0
     \<and> (\<forall>e. finished p = Rejected e \<longrightarrow> console p = [e] \<and> stdout p = [])
     \<and> (finished p = Fulfilled () \<longrightarrow>
          (\<exists>c b. returned (coinbase p) = Fulfilled c \<and> binance p = Fulfilled b
                \<and> stdout p = written c b \<and> console p = []))"
proof -
  from run_total [OF assms] obtain p
    where reach: "run productIds idPairs printExchangeRates evs = Inr p"
    by blast
  have inv: "invariant productIds p"
    using reach by (rule reachable_invariant)
  have status: "exitStatus (run productIds idPairs printExchangeRates evs) = 0"
    by (simp add: reach)
  have failure: "\<forall>e. finished p = Rejected e \<longrightarrow> console p = [e] \<and> stdout p = []"
    using inv by (auto simp: invariant_def)
  have success: "finished p = Fulfilled () \<longrightarrow>
          (\<exists>c b. returned (coinbase p) = Fulfilled c \<and> binance p = Fulfilled b
                \<and> stdout p = written c b \<and> console p = [])"
  proof
    assume "finished p = Fulfilled ()"
    with inv have logged: "console p = []"
      and all: "case Promise_all (returned (coinbase p)) (binance p) of
                  Fulfilled r \<Rightarrow> stdout p = written (fst r) (snd r)
                | Pending \<Rightarrow> False
                | Rejected e \<Rightarrow> False"
      by (simp_all add: invariant_def)
    from all obtain r where r: "Promise_all (returned (coinbase p)) (binance p) = Fulfilled r"
      and out: "stdout p = written (fst r) (snd r)"
      by (cases "Promise_all (returned (coinbase p)) (binance p)") auto
    from r have "returned (coinbase p) = Fulfilled (fst r) \<and> binance p = Fulfilled (snd r)"
      by (cases "returned (coinbase p)"; cases "binance p") auto
    with out logged show "\<exists>c b. returned (coinbase p) = Fulfilled c \<and> binance p = Fulfilled b
                \<and> stdout p = written c b \<and> console p = []"
      by blast
  qed
  from reach status failure success show ?thesis by blast
qed

theorem exit_status_zero_witness:
  "\<not> list_ex fatal
       [Coinbase Connect,
        Coinbase (ConnectionError (LibraryError 3)),
        Binance (End (Some (JArr [])))]
   \<and> run coinbaseProductIds binanceProductIds printExchangeRates
       [Coinbase Connect,
        Coinbase (ConnectionError (LibraryError 3)),
        Binance (End (Some (JArr [])))]
     = Inr \<lparr>coinbase =
              \<lparr>tickerData = [],
               prototype = None,
               subscribed = True,
               sent = [subscribeConfig coinbaseProductIds],
               closeCalls = 1,
               returned = Rejected (LibraryError 3)\<rparr>,
            binance = Fulfilled [],
            finished = Rejected (LibraryError 3),
            stdout = [],
            console = [LibraryError 3]\<rparr>
   \<and> exitStatus
       (run coinbaseProductIds binanceProductIds printExchangeRates
          [Coinbase Connect,
           Coinbase (ConnectionError (LibraryError 3)),
           Binance (End (Some (JArr [])))])
     = 0"
proof -
  let ?evs = "[Coinbase Connect,
        Coinbase (ConnectionError (LibraryError 3)),
        Binance (End (Some (JArr [])))]"
  have harmless: "\<not> list_ex fatal ?evs"
    by simp
  have reach: "run coinbaseProductIds binanceProductIds printExchangeRates ?evs
     = Inr \<lparr>coinbase =
              \<lparr>tickerData = [],
               prototype = None,
               subscribed = True,
               sent = [subscribeConfig coinbaseProductIds],
               closeCalls = 1,
               returned = Rejected (LibraryError 3)\<rparr>,
            binance = Fulfilled [],
            finished = Rejected (LibraryError 3),
            stdout = [],
            console = [LibraryError 3]\<rparr>"
    by (simp add: printExchangeRates_def getCoinbasePriceData_def onConnect_def onError_def
        resume_def isNotNull_def)
  from exit_status_zero [OF harmless, of coinbaseProductIds binanceProductIds] reach harmless
  show ?thesis by auto
qed

end
